theory Spec2Isabelle
  imports Complex_Main "HOL-Library.Sublist"
begin

section \<open>Strings and characters\<close>

text \<open>
  A JavaScript string is a sequence of UTF-16 code units. The model is a \<^typ>\<open>string\<close>
  (a list of \<^typ>\<open>char\<close>), read as the code units below 256; \<open>code\<close> gives the
  numeric value of a code unit. The classes below are the ones of ECMAScript restricted to
  that range: \<^verbatim>\<open>\d\<close> is 0-9, \<^verbatim>\<open>\w\<close> is A-Z, a-z, 0-9 and the underscore,
  \<^verbatim>\<open>\s\<close> (and the characters removed by \<^verbatim>\<open>trim\<close>) is TAB, LF, VT, FF, CR, SPACE and
  NBSP, and the line terminators excluded by \<^verbatim>\<open>.\<close> are LF and CR.
\<close>

definition code :: "char \<Rightarrow> nat" where
  "code c = of_char c"

definition is_digit :: "char \<Rightarrow> bool" where
  "is_digit c = (48 \<le> code c \<and> code c \<le> 57)"

definition is_upper :: "char \<Rightarrow> bool" where
  "is_upper c = (65 \<le> code c \<and> code c \<le> 90)"

definition is_lower :: "char \<Rightarrow> bool" where
  "is_lower c = (97 \<le> code c \<and> code c \<le> 122)"

definition is_word_char :: "char \<Rightarrow> bool" where
  "is_word_char c = (is_lower c \<or> is_upper c \<or> is_digit c \<or> c = CHR ''_'')"

definition is_space :: "char \<Rightarrow> bool" where
  "is_space c = (code c \<in> {9, 10, 11, 12, 13, 32, 160})"

definition is_line_terminator :: "char \<Rightarrow> bool" where
  "is_line_terminator c = (code c = 10 \<or> code c = 13)"

text \<open>
  \<open>canon\<close> is the canonicalisation of the \<^verbatim>\<open>i\<close> flag (upper-casing). Every character of
  a pattern of this program is ASCII, and ECMAScript never identifies a code unit above 127
  with one below 128, so upper-casing the ASCII letters is all the comparison needs.
  \<open>toLowerChar\<close> is \<^verbatim>\<open>toLowerCase\<close> on one code unit: A-Z, and the upper-case letters
  of Latin-1 (0xC0-0xDE without the multiplication sign 0xD7).
\<close>

definition canon :: "char \<Rightarrow> char" where
  "canon c = (if is_lower c then char_of (code c - 32) else c)"

definition ascii_lower :: "char \<Rightarrow> char" where
  "ascii_lower c = (if is_upper c then char_of (code c + 32) else c)"

definition toLowerChar :: "char \<Rightarrow> char" where
  "toLowerChar c =
     (if is_upper c \<or> (192 \<le> code c \<and> code c \<le> 222 \<and> code c \<noteq> 215)
      then char_of (code c + 32) else c)"

text \<open>
  The same functions on the bits of a character, proved equal to the definitions above;
  they are the equations used when a definition is evaluated on a concrete string.
\<close>

lemma code_Char:
  "code (Char b0 b1 b2 b3 b4 b5 b6 b7) =
     of_bool b0 + 2 * of_bool b1 + 4 * of_bool b2 + 8 * of_bool b3 + 16 * of_bool b4 +
     32 * of_bool b5 + 64 * of_bool b6 + 128 * of_bool b7"
  by (simp add: code_def)

lemma is_digit_Char [code]:
  "is_digit (Char b0 b1 b2 b3 b4 b5 b6 b7) =
     (\<not> b7 \<and> \<not> b6 \<and> b5 \<and> b4 \<and> (\<not> b3 \<or> (\<not> b2 \<and> \<not> b1)))"
  by (cases b0; cases b1; cases b2; cases b3; cases b4; cases b5; cases b6; cases b7;
      simp add: is_digit_def code_Char)

lemma is_upper_Char [code]:
  "is_upper (Char b0 b1 b2 b3 b4 b5 b6 b7) =
     (\<not> b7 \<and> b6 \<and> \<not> b5 \<and> (b0 \<or> b1 \<or> b2 \<or> b3 \<or> b4) \<and>
      \<not> (b4 \<and> b3 \<and> (b2 \<or> (b1 \<and> b0))))"
  by (cases b0; cases b1; cases b2; cases b3; cases b4; cases b5; cases b6; cases b7;
      simp add: is_upper_def code_Char)

lemma is_lower_Char [code]:
  "is_lower (Char b0 b1 b2 b3 b4 b5 b6 b7) =
     (\<not> b7 \<and> b6 \<and> b5 \<and> (b0 \<or> b1 \<or> b2 \<or> b3 \<or> b4) \<and>
      \<not> (b4 \<and> b3 \<and> (b2 \<or> (b1 \<and> b0))))"
  by (cases b0; cases b1; cases b2; cases b3; cases b4; cases b5; cases b6; cases b7;
      simp add: is_lower_def code_Char)

lemma is_space_Char [code]:
  "is_space (Char b0 b1 b2 b3 b4 b5 b6 b7) =
     ((\<not> b7 \<and> \<not> b6 \<and> \<not> b5 \<and> \<not> b4 \<and> b3 \<and> ((\<not> b2 \<and> (b1 \<or> b0)) \<or> (b2 \<and> \<not> b1))) \<or>
      (\<not> b6 \<and> b5 \<and> \<not> b4 \<and> \<not> b3 \<and> \<not> b2 \<and> \<not> b1 \<and> \<not> b0))"
  by (cases b0; cases b1; cases b2; cases b3; cases b4; cases b5; cases b6; cases b7;
      simp add: is_space_def code_Char)

lemma is_line_terminator_Char [code]:
  "is_line_terminator (Char b0 b1 b2 b3 b4 b5 b6 b7) =
     (\<not> b7 \<and> \<not> b6 \<and> \<not> b5 \<and> \<not> b4 \<and> b3 \<and> ((\<not> b2 \<and> b1 \<and> \<not> b0) \<or> (b2 \<and> \<not> b1 \<and> b0)))"
  by (cases b0; cases b1; cases b2; cases b3; cases b4; cases b5; cases b6; cases b7;
      simp add: is_line_terminator_def code_Char)

lemma canon_Char [code]:
  "canon (Char b0 b1 b2 b3 b4 b5 b6 b7) =
     (if is_lower (Char b0 b1 b2 b3 b4 b5 b6 b7) then Char b0 b1 b2 b3 b4 False b6 b7
      else Char b0 b1 b2 b3 b4 b5 b6 b7)"
  by (cases b0; cases b1; cases b2; cases b3; cases b4; cases b5; cases b6; cases b7;
      simp add: canon_def is_lower_def code_Char char_of_def bit_Suc_0_iff)

lemma ascii_lower_Char [code]:
  "ascii_lower (Char b0 b1 b2 b3 b4 b5 b6 b7) =
     (if is_upper (Char b0 b1 b2 b3 b4 b5 b6 b7) then Char b0 b1 b2 b3 b4 True b6 b7
      else Char b0 b1 b2 b3 b4 b5 b6 b7)"
  by (cases b0; cases b1; cases b2; cases b3; cases b4; cases b5; cases b6; cases b7;
      simp add: ascii_lower_def is_upper_def code_Char char_of_def bit_Suc_0_iff)

lemma toLowerChar_Char [code]:
  "toLowerChar (Char b0 b1 b2 b3 b4 b5 b6 b7) =
     (if is_upper (Char b0 b1 b2 b3 b4 b5 b6 b7) \<or>
         (b7 \<and> b6 \<and> \<not> b5 \<and> \<not> (b4 \<and> b2 \<and> b1 \<and> b0))
      then Char b0 b1 b2 b3 b4 True b6 b7
      else Char b0 b1 b2 b3 b4 b5 b6 b7)"
  by (cases b0; cases b1; cases b2; cases b3; cases b4; cases b5; cases b6; cases b7;
      simp add: toLowerChar_def is_upper_def code_Char char_of_def bit_Suc_0_iff)

subsection \<open>String operations of the JavaScript library\<close>

text \<open>
  \<open>toUpperCase\<close> is applied by the program only to the text matched by the frequency
  pattern, which consists of ASCII letters and digits; the model upper-cases ASCII letters.
  \<open>includes_str\<close> is \<^verbatim>\<open>String.prototype.includes\<close>, \<open>split_char\<close> is \<^verbatim>\<open>split\<close> on a
  one-character separator and \<open>split_ws\<close> is \<^verbatim>\<open>split(/\s+/)\<close>: the pieces between the
  maximal runs of white space, an empty piece standing before a leading and after a
  trailing run. \<open>parseInt\<close> is applied only to strings of decimal digits.
  \<open>falsy_str\<close> is \<^verbatim>\<open>!value\<close> for an optional string: true for \<^verbatim>\<open>undefined\<close> and
  for the empty string.
\<close>

definition toLowerCase :: "string \<Rightarrow> string" where
  "toLowerCase s = map toLowerChar s"

definition toUpperCase :: "string \<Rightarrow> string" where
  "toUpperCase s = map canon s"

definition trim :: "string \<Rightarrow> string" where
  "trim s = rev (dropWhile is_space (rev (dropWhile is_space s)))"

fun startsWith :: "string \<Rightarrow> string \<Rightarrow> bool" where
  "startsWith s [] = True"
| "startsWith [] (p # ps) = False"
| "startsWith (c # cs) (p # ps) = (c = p \<and> startsWith cs ps)"

fun includes_str :: "string \<Rightarrow> string \<Rightarrow> bool" where
  "includes_str [] t = (t = [])"
| "includes_str (c # cs) t = (startsWith (c # cs) t \<or> includes_str cs t)"

fun split_char :: "char \<Rightarrow> string \<Rightarrow> string list" where
  "split_char sep [] = [[]]"
| "split_char sep (c # cs) =
     (if c = sep then [] # split_char sep cs
      else (case split_char sep cs of [] \<Rightarrow> [[c]] | w # ws \<Rightarrow> (c # w) # ws))"

function split_ws :: "string \<Rightarrow> string list" where
  "split_ws [] = [[]]"
| "split_ws (c # cs) =
     (if is_space c then [] # split_ws (dropWhile is_space cs)
      else (case split_ws cs of [] \<Rightarrow> [[c]] | w # ws \<Rightarrow> (c # w) # ws))"
  by pat_completeness auto
termination
  by (relation "measure length") (auto simp: length_dropWhile_le le_imp_less_Suc)

definition digit_val :: "char \<Rightarrow> nat" where
  "digit_val c = code c - 48"

definition parseInt :: "string \<Rightarrow> nat" where
  "parseInt s = foldl (\<lambda>n c. 10 * n + digit_val c) 0 s"

definition falsy_str :: "string option \<Rightarrow> bool" where
  "falsy_str v = (case v of None \<Rightarrow> True | Some s \<Rightarrow> s = [])"

definition the_default :: "'a \<Rightarrow> 'a option \<Rightarrow> 'a" where
  "the_default d v = (case v of None \<Rightarrow> d | Some x \<Rightarrow> x)"

section \<open>Regular expressions\<close>

text \<open>
  The extractor is written with regular expression literals. Each literal is translated
  to a value of \<open>rx\<close>, and \<open>rx_run\<close> is the backtracking matcher of ECMAScript
  (without the \<^verbatim>\<open>u\<close>, \<^verbatim>\<open>m\<close>, \<^verbatim>\<open>s\<close> and \<^verbatim>\<open>g\<close> flags, none of which the program uses):
  it returns every way the pattern can match at the current position, in the order in
  which backtracking tries them, so the head of the list is the match that JavaScript
  reports. A matcher state is the text consumed so far (reversed), the text that remains
  and the captures made so far (the latest first). The Boolean argument is the
  \<^verbatim>\<open>i\<close> flag.

  As in ECMAScript, an iteration of \<^verbatim>\<open>*\<close>, \<^verbatim>\<open>*?\<close> or \<^verbatim>\<open>?\<close> that consumes nothing is
  rejected, and the captures of the groups inside a quantified pattern are cleared at the
  start of each iteration. \<^verbatim>\<open>r+\<close> is \<^verbatim>\<open>rr*\<close>.
\<close>

datatype citem = CChar char | CRange char char | CDigit | CSpace | CWord

datatype rx =
    Lit char
  | Dig | Wrd | Spc | Dot
  | Cls "citem list"
  | Eps
  | Cat rx rx
  | Alt rx rx
  | Star rx
  | LazyStar rx
  | Opt rx
  | Grp nat rx
  | Bol | Eol | WordB

type_synonym captures = "(nat \<times> string) list"
type_synonym mstate = "string \<times> string \<times> captures"

fun remaining :: "mstate \<Rightarrow> nat" where
  "remaining (pre, suf, caps) = length suf"

fun groups :: "rx \<Rightarrow> nat list" where
  "groups (Cat r1 r2) = groups r1 @ groups r2"
| "groups (Alt r1 r2) = groups r1 @ groups r2"
| "groups (Star r) = groups r"
| "groups (LazyStar r) = groups r"
| "groups (Opt r) = groups r"
| "groups (Grp n r) = n # groups r"
| "groups _ = []"

fun reset :: "rx \<Rightarrow> mstate \<Rightarrow> mstate" where
  "reset r (pre, suf, caps) = (pre, suf, filter (\<lambda>(n, s). n \<notin> set (groups r)) caps)"

fun citem_matches :: "bool \<Rightarrow> citem \<Rightarrow> char \<Rightarrow> bool" where
  "citem_matches ic (CChar c) d = (if ic then canon d = canon c else d = c)"
| "citem_matches ic (CRange lo hi) d =
     ((code lo \<le> code d \<and> code d \<le> code hi) \<or>
      (ic \<and> ((code lo \<le> code (canon d) \<and> code (canon d) \<le> code hi) \<or>
             (code lo \<le> code (ascii_lower d) \<and> code (ascii_lower d) \<le> code hi))))"
| "citem_matches ic CDigit d = is_digit d"
| "citem_matches ic CSpace d = is_space d"
| "citem_matches ic CWord d = is_word_char d"

fun step :: "(char \<Rightarrow> bool) \<Rightarrow> mstate \<Rightarrow> mstate list" where
  "step p (pre, [], caps) = []"
| "step p (pre, c # cs, caps) = (if p c then [(c # pre, cs, caps)] else [])"

fun at_word_boundary :: "mstate \<Rightarrow> bool" where
  "at_word_boundary (pre, suf, caps) =
     ((case pre of [] \<Rightarrow> False | a # _ \<Rightarrow> is_word_char a) \<noteq>
      (case suf of [] \<Rightarrow> False | b # _ \<Rightarrow> is_word_char b))"

fun capture :: "nat \<Rightarrow> mstate \<Rightarrow> mstate \<Rightarrow> mstate" where
  "capture n (pre, suf, caps) (pre', suf', caps') =
     (pre', suf', (n, rev (take (length pre' - length pre) pre')) # caps')"

function rx_run :: "bool \<Rightarrow> rx \<Rightarrow> mstate \<Rightarrow> mstate list" where
  "rx_run ic (Lit c) st = step (\<lambda>d. if ic then canon d = canon c else d = c) st"
| "rx_run ic Dig st = step is_digit st"
| "rx_run ic Wrd st = step is_word_char st"
| "rx_run ic Spc st = step is_space st"
| "rx_run ic Dot st = step (\<lambda>d. \<not> is_line_terminator d) st"
| "rx_run ic (Cls items) st = step (\<lambda>d. list_ex (\<lambda>i. citem_matches ic i d) items) st"
| "rx_run ic Eps st = [st]"
| "rx_run ic (Cat r1 r2) st = concat (map (rx_run ic r2) (rx_run ic r1 st))"
| "rx_run ic (Alt r1 r2) st = rx_run ic r1 st @ rx_run ic r2 st"
| "rx_run ic (Star r) st =
     concat (map (rx_run ic (Star r))
       (filter (\<lambda>st'. remaining st' < remaining st) (rx_run ic r (reset r st)))) @ [st]"
| "rx_run ic (LazyStar r) st =
     st # concat (map (rx_run ic (LazyStar r))
       (filter (\<lambda>st'. remaining st' < remaining st) (rx_run ic r (reset r st))))"
| "rx_run ic (Opt r) st =
     filter (\<lambda>st'. remaining st' < remaining st) (rx_run ic r (reset r st)) @ [st]"
| "rx_run ic (Grp n r) st = map (capture n st) (rx_run ic r st)"
| "rx_run ic Bol st = (case st of (pre, suf, caps) \<Rightarrow> if pre = [] then [st] else [])"
| "rx_run ic Eol st = (case st of (pre, suf, caps) \<Rightarrow> if suf = [] then [st] else [])"
| "rx_run ic WordB st = (if at_word_boundary st then [st] else [])"
  by pat_completeness auto
termination
  by (relation "inv_image (less_than <*lex*> less_than) (\<lambda>(ic, r, st). (size r, remaining st))") auto

declare rx_run.simps [simp del]

text \<open>
  \<^verbatim>\<open>s.match(re)\<close> and \<^verbatim>\<open>re.test(s)\<close> for a pattern without the \<^verbatim>\<open>g\<close> flag: the
  pattern is tried at position 0, 1, 2, ... of the string and the first position with a
  match gives the result, \<open>m_text\<close> being element 0 of the match array and \<open>grp m n\<close>
  element n. Every group the program reads lies outside any alternative or optional part
  of its pattern, so it has captured whenever the pattern matched; \<open>grp\<close> is the empty
  string for a group that has not.
\<close>

record js_match =
  m_text :: string
  m_caps :: captures

fun match_of :: "string \<Rightarrow> mstate list \<Rightarrow> js_match option" where
  "match_of pre [] = None"
| "match_of pre ((pre', suf', caps') # _) =
     Some \<lparr> m_text = rev (take (length pre' - length pre) pre'), m_caps = caps' \<rparr>"

fun rx_search :: "bool \<Rightarrow> rx \<Rightarrow> string \<Rightarrow> string \<Rightarrow> js_match option" where
  "rx_search ic r pre [] = match_of pre (rx_run ic r (pre, [], []))"
| "rx_search ic r pre (c # cs) =
     (case match_of pre (rx_run ic r (pre, c # cs, [])) of
        Some m \<Rightarrow> Some m
      | None \<Rightarrow> rx_search ic r (c # pre) cs)"

definition rx_exec :: "bool \<Rightarrow> rx \<Rightarrow> string \<Rightarrow> js_match option" where
  "rx_exec ic r s = rx_search ic r [] s"

definition grp :: "js_match \<Rightarrow> nat \<Rightarrow> string" where
  "grp m n = (case map_of (m_caps m) n of Some s \<Rightarrow> s | None \<Rightarrow> [])"

definition rx_test :: "bool \<Rightarrow> rx \<Rightarrow> string \<Rightarrow> bool" where
  "rx_test ic r s = (rx_exec ic r s \<noteq> None)"

text \<open>Shorthands for writing patterns: a literal string, a sequence, an alternation, \<^verbatim>\<open>r+\<close>.\<close>

definition lits :: "string \<Rightarrow> rx" where
  "lits s = foldr (\<lambda>c r. Cat (Lit c) r) s Eps"

fun seqs :: "rx list \<Rightarrow> rx" where
  "seqs [] = Eps"
| "seqs [r] = r"
| "seqs (r # rs) = Cat r (seqs rs)"

fun alts :: "rx list \<Rightarrow> rx" where
  "alts [] = Eps"
| "alts [r] = r"
| "alts (r # rs) = Alt r (alts rs)"

definition plus :: "rx \<Rightarrow> rx" where
  "plus r = Cat r (Star r)"

definition words :: "string list \<Rightarrow> rx" where
  "words ws = alts (map lits ws)"


section \<open>Rule-based extractor\<close>

text \<open>
  Source: \<^verbatim>\<open>lib/extractor-improved.ts\<close>, with the type \<^verbatim>\<open>Medication\<close> of
  \<^verbatim>\<open>lib/types.ts\<close>. A timing bucket that the object does not have is \<^term>\<open>None\<close>. The field
  \<^verbatim>\<open>notes\<close> is \<open>med_notes\<close>, and the confidence of an explanation is \<open>expl_confidence\<close>.
  The two tables of \<^verbatim>\<open>data/abbreviations.json\<close>, which is not among the sources, are the
  record \<open>Abbreviations\<close>: \<open>abbr_frequency\<close> gives the \<^verbatim>\<open>full\<close> text of a frequency code
  and \<open>abbr_form\<close> the full name of a form.
\<close>

record TimingBuckets =
  morning :: "nat option"
  afternoon :: "nat option"
  evening :: "nat option"
  night :: "nat option"

record Medication =
  drug_name :: string
  strength :: string
  form :: string
  dose_pattern :: string
  timing_buckets :: TimingBuckets
  duration :: string
  food_instruction :: "string option"
  med_notes :: "string option"
  confidence :: real

record ExtractionExplanation =
  matched_span :: string
  rule_name :: string
  normalized_meaning :: string
  expl_confidence :: real

record Abbreviations =
  abbr_frequency :: "string \<Rightarrow> string option"
  abbr_form :: "string \<Rightarrow> string option"

definition NON_MEDICATION_KEYWORDS :: "string list" where
  "NON_MEDICATION_KEYWORDS =
     [''name'', ''age'', ''date'', ''weight'', ''address'', ''phone'', ''doctor'', ''clinic'',
      ''hospital'', ''patient'', ''gender'', ''diagnosis'', ''advice'', ''follow'', ''review'',
      ''signature'', ''registration'', ''reg'', ''mbbs'', ''md'', ''clinical'', ''description'',
      ''urti'', ''fever'']"

definition MEDICATION_FORMS :: "string list" where
  "MEDICATION_FORMS =
     [''tab'', ''cap'', ''syr'', ''syp'', ''inj'', ''inh'', ''oint'', ''cr'', ''gel'', ''drops'',
      ''susp'', ''powder'']"

subsection \<open>The patterns\<close>

text \<open>
  The patterns of \<^verbatim>\<open>isNonMedicationLine\<close>:
  \<^verbatim>\<open>/^\d+[-\/]\d+[-\/]\d+/\<close> and \<^verbatim>\<open>/^[\d\s:]+$/\<close>.
\<close>

definition date_like_rx :: rx where
  "date_like_rx =
     seqs [Bol, plus Dig, Cls [CChar CHR ''-'', CChar CHR ''/''], plus Dig,
           Cls [CChar CHR ''-'', CChar CHR ''/''], plus Dig]"

definition numeric_only_rx :: rx where
  "numeric_only_rx = seqs [Bol, plus (Cls [CDigit, CSpace, CChar CHR '':'']), Eol]"

text \<open>
  The patterns of \<^verbatim>\<open>hasMedicationIndicators\<close>, all with the \<^verbatim>\<open>i\<close> flag:
  \<^verbatim>\<open>/\d+\s*(mg|mcg|ml|g|iu|units?)/\<close>,
  \<^verbatim>\<open>/\b(od|bd|tds|qds|qid|prn|sos|hs|q\d+h|stat|times?\s+(daily|a\s+day|per\s+day))/\<close>,
  \<^verbatim>\<open>/\b(tab|cap|syr|syp|inj|inh|oint|cr|gel|drops|susp|powder)\b/\<close> and
  \<^verbatim>\<open>/x\s*\d+\s*(d|day|days|w|week|weeks|m|month|months)/\<close>.
\<close>

definition has_strength_rx :: rx where
  "has_strength_rx =
     seqs [plus Dig, Star Spc,
           Grp 1 (alts [lits ''mg'', lits ''mcg'', lits ''ml'', lits ''g'', lits ''iu'',
                        Cat (lits ''unit'') (Opt (Lit CHR ''s''))])]"

definition has_frequency_rx :: rx where
  "has_frequency_rx =
     seqs [WordB,
           Grp 1 (alts [lits ''od'', lits ''bd'', lits ''tds'', lits ''qds'', lits ''qid'',
                        lits ''prn'', lits ''sos'', lits ''hs'',
                        seqs [Lit CHR ''q'', plus Dig, Lit CHR ''h''],
                        lits ''stat'',
                        seqs [lits ''time'', Opt (Lit CHR ''s''), plus Spc,
                              Grp 2 (alts [lits ''daily'',
                                           seqs [Lit CHR ''a'', plus Spc, lits ''day''],
                                           seqs [lits ''per'', plus Spc, lits ''day'']])]])]"

definition has_form_rx :: rx where
  "has_form_rx =
     seqs [WordB,
           Grp 1 (words [''tab'', ''cap'', ''syr'', ''syp'', ''inj'', ''inh'', ''oint'', ''cr'',
                         ''gel'', ''drops'', ''susp'', ''powder'']),
           WordB]"

definition duration_units_rx :: rx where
  "duration_units_rx =
     words [''d'', ''day'', ''days'', ''w'', ''week'', ''weeks'', ''m'', ''month'', ''months'']"

definition has_duration_rx :: rx where
  "has_duration_rx =
     seqs [Lit CHR ''x'', Star Spc, plus Dig, Star Spc, Grp 1 duration_units_rx]"

text \<open>
  The patterns of \<^verbatim>\<open>extractMedicationFromLine\<close>, in the order of the source. All but
  \<^verbatim>\<open>/^\d+$/\<close> and \<^verbatim>\<open>/(\d)-(\d)-(\d)/\<close> have the \<^verbatim>\<open>i\<close> flag:
  \<^verbatim>\<open>/\b(tab|cap|syr|syp|inj|inh|oint|cr|gel|drops|susp)\s+([a-z][\w\-]+)/\<close>,
  \<^verbatim>\<open>/^\d+$/\<close>,
  \<^verbatim>\<open>/(\d+(?:\.\d+)?(?:\/\d+)?)\s*(mg|mcg|g|ml|iu|units?)/\<close>,
  \<^verbatim>\<open>/(\d)-(\d)-(\d)/\<close>,
  \<^verbatim>\<open>/\b(od|bd|tds|qds|qid|prn|hs|sos|q4h|q6h|q8h|q12h|stat)\b/\<close>,
  \<^verbatim>\<open>/(\d+)\s*times?\s*(daily|per day|a day)/\<close>,
  \<^verbatim>\<open>/x\s*(\d+)\s*(d|day|days|w|week|weeks|m|month|months)/\<close>,
  \<^verbatim>\<open>/for\s+(\d+)\s*(d|day|days|w|week|weeks|m|month|months)/\<close>,
  \<^verbatim>\<open>/\b(ac|pc|with meals|empty stomach|before meals|after meals|with food)\b/\<close>,
  \<^verbatim>\<open>/\b(morning|evening|bedtime|night|afternoon)\b/\<close>,
  \<^verbatim>\<open>/(prn|sos|as needed|if needed).*?(\(.*?\))?/\<close> and
  \<^verbatim>\<open>/max\s+\d+.*?(dose|mg|ml|times)/\<close>.
\<close>

definition form_drug_rx :: rx where
  "form_drug_rx =
     seqs [WordB,
           Grp 1 (words [''tab'', ''cap'', ''syr'', ''syp'', ''inj'', ''inh'', ''oint'', ''cr'',
                         ''gel'', ''drops'', ''susp'']),
           plus Spc,
           Grp 2 (Cat (Cls [CRange CHR ''a'' CHR ''z''])
                      (plus (Cls [CWord, CChar CHR ''-''])))]"

definition all_digits_rx :: rx where
  "all_digits_rx = seqs [Bol, plus Dig, Eol]"

definition strength_rx :: rx where
  "strength_rx =
     seqs [Grp 1 (seqs [plus Dig, Opt (Cat (Lit CHR ''.'') (plus Dig)),
                        Opt (Cat (Lit CHR ''/'') (plus Dig))]),
           Star Spc,
           Grp 2 (alts [lits ''mg'', lits ''mcg'', lits ''g'', lits ''ml'', lits ''iu'',
                        Cat (lits ''unit'') (Opt (Lit CHR ''s''))])]"

definition dose_pattern_rx :: rx where
  "dose_pattern_rx =
     seqs [Grp 1 Dig, Lit CHR ''-'', Grp 2 Dig, Lit CHR ''-'', Grp 3 Dig]"

definition freq_rx :: rx where
  "freq_rx =
     seqs [WordB,
           Grp 1 (words [''od'', ''bd'', ''tds'', ''qds'', ''qid'', ''prn'', ''hs'', ''sos'',
                         ''q4h'', ''q6h'', ''q8h'', ''q12h'', ''stat'']),
           WordB]"

definition times_rx :: rx where
  "times_rx =
     seqs [Grp 1 (plus Dig), Star Spc, lits ''time'', Opt (Lit CHR ''s''), Star Spc,
           Grp 2 (words [''daily'', ''per day'', ''a day''])]"

definition duration1_rx :: rx where
  "duration1_rx =
     seqs [Lit CHR ''x'', Star Spc, Grp 1 (plus Dig), Star Spc, Grp 2 duration_units_rx]"

definition duration2_rx :: rx where
  "duration2_rx =
     seqs [lits ''for'', plus Spc, Grp 1 (plus Dig), Star Spc, Grp 2 duration_units_rx]"

definition food_rx :: rx where
  "food_rx =
     seqs [WordB,
           Grp 1 (words [''ac'', ''pc'', ''with meals'', ''empty stomach'', ''before meals'',
                         ''after meals'', ''with food'']),
           WordB]"

definition timing_rx :: rx where
  "timing_rx =
     seqs [WordB,
           Grp 1 (words [''morning'', ''evening'', ''bedtime'', ''night'', ''afternoon'']),
           WordB]"

definition prn_rx :: rx where
  "prn_rx =
     seqs [Grp 1 (words [''prn'', ''sos'', ''as needed'', ''if needed'']),
           LazyStar Dot,
           Opt (Grp 2 (seqs [Lit CHR ''('', LazyStar Dot, Lit CHR '')'']))]"

definition max_dose_rx :: rx where
  "max_dose_rx =
     seqs [lits ''max'', plus Spc, plus Dig, LazyStar Dot,
           Grp 1 (words [''dose'', ''mg'', ''ml'', ''times''])]"

subsection \<open>Screening of a line\<close>

text \<open>
  In \<open>isNonMedicationLine\<close> the loop over the keywords returns true at the first keyword
  that is a prefix of the line or equals the trimmed text before the first colon;
  \<^verbatim>\<open>lowerLine.split(':')[0]\<close> is the text before the first colon.
\<close>

definition isNonMedicationLine :: "string \<Rightarrow> bool" where
  "isNonMedicationLine line =
     (let lowerLine = trim (toLowerCase line) in
      if length lowerLine < 3 then True
      else if list_ex (\<lambda>keyword.
                startsWith lowerLine keyword \<or>
                (includes_str lowerLine '':'' \<and>
                 trim (takeWhile (\<lambda>c. c \<noteq> CHR '':'') lowerLine) = keyword))
              NON_MEDICATION_KEYWORDS then True
      else if rx_test False date_like_rx lowerLine then True
      else if rx_test False numeric_only_rx lowerLine then True
      else False)"

definition hasMedicationIndicators :: "string \<Rightarrow> bool" where
  "hasMedicationIndicators line =
     (let lowerLine = toLowerCase line;
          hasStrength = rx_test True has_strength_rx line;
          hasFrequency = rx_test True has_frequency_rx line;
          hasForm = rx_test True has_form_rx lowerLine;
          hasDuration = rx_test True has_duration_rx line;
          indicatorCount = length (filter (\<lambda>b. b) [hasStrength, hasFrequency, hasForm, hasDuration])
      in indicatorCount \<ge> 1)"

subsection \<open>Extraction from one line\<close>

text \<open>
  \<^verbatim>\<open>extractMedicationFromLine\<close> works through the line once per field, in this order: drug
  name and form, strength, frequency and dose pattern, duration, food instruction, timing
  hint, notes. Each part is a function below that returns the value of the field, the
  amount it adds to the confidence and the explanations it pushes;
  \<open>extractMedicationFromLine\<close> puts them together. \<open>is_name_candidate\<close> is the test of the
  loop over the words of the line, and \<open>extract_drug_name\<close> is \<^term>\<open>None\<close> where the
  function returns a null medication.
\<close>

definition is_name_candidate :: "string \<Rightarrow> bool" where
  "is_name_candidate word =
     (length word \<ge> 3 \<and> \<not> rx_test False all_digits_rx word \<and>
      toLowerCase word \<notin> set NON_MEDICATION_KEYWORDS)"

definition extract_drug_name ::
    "string \<Rightarrow> (string \<times> string \<times> real \<times> ExtractionExplanation list) option" where
  "extract_drug_name line =
     (case rx_exec True form_drug_rx line of
        Some formDrugMatch \<Rightarrow>
          (let form = grp formDrugMatch 1; drug_name = grp formDrugMatch 2 in
           Some (drug_name, form, 0.3,
             [\<lparr> matched_span = m_text formDrugMatch, rule_name = ''form_drug_extraction'',
                normalized_meaning = ''Medication: '' @ drug_name @ '' ('' @ form @ '')'',
                expl_confidence = 0.9 \<rparr>]))
      | None \<Rightarrow>
          (case find is_name_candidate (split_ws (trim line)) of
             None \<Rightarrow> None
           | Some word \<Rightarrow>
               Some (word, ''Tablet'', 0.2,
                 [\<lparr> matched_span = word, rule_name = ''drug_name_extraction'',
                    normalized_meaning = ''Medication: '' @ word,
                    expl_confidence = 0.7 \<rparr>])))"

definition extract_strength :: "string \<Rightarrow> string \<times> real \<times> ExtractionExplanation list" where
  "extract_strength line =
     (case rx_exec True strength_rx line of
        Some strengthMatch \<Rightarrow>
          (let strength = grp strengthMatch 1 @ grp strengthMatch 2 in
           (strength, 0.2,
             [\<lparr> matched_span = m_text strengthMatch, rule_name = ''strength_extraction'',
                normalized_meaning = ''Strength: '' @ strength, expl_confidence = 0.9 \<rparr>]))
      | None \<Rightarrow> (''Unknown'', 0, []))"

text \<open>
  \<open>freq_buckets\<close> is the chain that maps a frequency code to timing buckets (a code that
  the chain does not list leaves the buckets as they are), and \<open>times_frequency\<close> the chain
  on the number of times per day.
\<close>

definition buckets :: "nat option \<Rightarrow> nat option \<Rightarrow> nat option \<Rightarrow> nat option \<Rightarrow> TimingBuckets" where
  "buckets m a e n = \<lparr> morning = m, afternoon = a, evening = e, night = n \<rparr>"

definition freq_buckets :: "string \<Rightarrow> TimingBuckets \<Rightarrow> TimingBuckets" where
  "freq_buckets dp tb =
     (if dp = ''OD'' then buckets (Some 1) None None None
      else if dp = ''BD'' then buckets (Some 1) None (Some 1) None
      else if dp = ''TDS'' then buckets (Some 1) (Some 1) (Some 1) None
      else if dp = ''QDS'' \<or> dp = ''QID'' then buckets (Some 1) (Some 1) (Some 1) (Some 1)
      else if dp = ''HS'' \<or> dp = ''SOS'' then buckets None None None (Some 1)
      else if dp = ''Q6H'' then buckets (Some 1) (Some 1) (Some 1) (Some 1)
      else tb)"

definition times_frequency ::
    "nat \<Rightarrow> string \<Rightarrow> TimingBuckets \<Rightarrow> string \<times> TimingBuckets" where
  "times_frequency n dp tb =
     (if n = 1 then (''OD'', tb)
      else if n = 2 then (''BD'', buckets (Some 1) None (Some 1) None)
      else if n = 3 then (''TDS'', buckets (Some 1) (Some 1) (Some 1) None)
      else if n = 4 then (''QDS'', buckets (Some 1) (Some 1) (Some 1) (Some 1))
      else (dp, tb))"

definition extract_frequency ::
    "Abbreviations \<Rightarrow> string \<Rightarrow> string \<times> TimingBuckets \<times> real \<times> ExtractionExplanation list" where
  "extract_frequency abbreviations line =
     (case rx_exec False dose_pattern_rx line of
        Some dosePatternMatch \<Rightarrow>
          (m_text dosePatternMatch,
           buckets (Some (parseInt (grp dosePatternMatch 1)))
                   (Some (parseInt (grp dosePatternMatch 2)))
                   (Some (parseInt (grp dosePatternMatch 3))) None,
           0.2,
           [\<lparr> matched_span = m_text dosePatternMatch, rule_name = ''dose_pattern_extraction'',
              normalized_meaning = ''Dose pattern: '' @ grp dosePatternMatch 1 @ ''-'' @
                grp dosePatternMatch 2 @ ''-'' @ grp dosePatternMatch 3,
              expl_confidence = 0.95 \<rparr>])
      | None \<Rightarrow>
          (case rx_exec True freq_rx line of
             Some freqMatch \<Rightarrow>
               (let dose_pattern = toUpperCase (grp freqMatch 1) in
                case abbr_frequency abbreviations dose_pattern of
                  Some full \<Rightarrow>
                    (dose_pattern, freq_buckets dose_pattern (buckets (Some 1) None None None),
                     0.15,
                     [\<lparr> matched_span = m_text freqMatch, rule_name = ''frequency_extraction'',
                        normalized_meaning = ''Frequency: '' @ full, expl_confidence = 0.9 \<rparr>])
                | None \<Rightarrow> (dose_pattern, buckets (Some 1) None None None, 0.15, []))
           | None \<Rightarrow>
               (case rx_exec True times_rx line of
                  Some timesMatch \<Rightarrow>
                    (case times_frequency (parseInt (grp timesMatch 1)) ''OD''
                            (buckets (Some 1) None None None) of
                       (dose_pattern', timing_buckets') \<Rightarrow>
                         (dose_pattern', timing_buckets', 0.15, []))
                | None \<Rightarrow> (''OD'', buckets (Some 1) None None None, 0, []))))"

definition full_unit :: "string \<Rightarrow> string" where
  "full_unit unit =
     (if startsWith unit ''d'' then ''days''
      else if startsWith unit ''w'' then ''weeks'' else ''months'')"

definition extract_duration :: "string \<Rightarrow> string \<times> real \<times> ExtractionExplanation list" where
  "extract_duration line =
     (case rx_exec True duration1_rx line of
        Some durationMatch1 \<Rightarrow>
          (let num = grp durationMatch1 1;
               unit = toLowerCase (grp durationMatch1 2);
               duration = num @ '' '' @ full_unit unit
           in (duration, 0.1,
                [\<lparr> matched_span = m_text durationMatch1, rule_name = ''duration_extraction'',
                   normalized_meaning = ''Duration: '' @ duration, expl_confidence = 0.85 \<rparr>]))
      | None \<Rightarrow>
          (case rx_exec True duration2_rx line of
             Some durationMatch2 \<Rightarrow>
               (let num = grp durationMatch2 1;
                    unit = toLowerCase (grp durationMatch2 2)
                in (num @ '' '' @ full_unit unit, 0.1, []))
           | None \<Rightarrow> (''As directed'', 0, [])))"

definition extract_food ::
    "string \<Rightarrow> string option \<times> real \<times> ExtractionExplanation list" where
  "extract_food line =
     (case rx_exec True food_rx line of
        Some foodMatch \<Rightarrow>
          (Some (grp foodMatch 1), 0.1,
           [\<lparr> matched_span = m_text foodMatch, rule_name = ''food_instruction_extraction'',
              normalized_meaning = ''Food instruction: '' @ grp foodMatch 1,
              expl_confidence = 0.85 \<rparr>])
      | None \<Rightarrow> (None, 0, []))"

definition extract_timing ::
    "string \<Rightarrow> TimingBuckets \<Rightarrow> TimingBuckets \<times> ExtractionExplanation list" where
  "extract_timing line tb =
     (case rx_exec True timing_rx line of
        Some timingMatch \<Rightarrow>
          (let timing = toLowerCase (grp timingMatch 1) in
           (if timing = ''morning'' then buckets (Some 1) None None None
            else if timing = ''evening'' \<or> timing = ''night'' \<or> timing = ''bedtime'' then
              buckets None None None (Some 1)
            else if timing = ''afternoon'' then buckets None (Some 1) None None
            else tb,
            [\<lparr> matched_span = m_text timingMatch, rule_name = ''timing_extraction'',
               normalized_meaning = ''Timing: '' @ grp timingMatch 1,
               expl_confidence = 0.8 \<rparr>]))
      | None \<Rightarrow> (tb, []))"

definition extract_notes :: "string \<Rightarrow> string option" where
  "extract_notes line =
     (let notes = (case rx_exec True prn_rx line of
                     Some prnMatch \<Rightarrow> Some (m_text prnMatch) | None \<Rightarrow> None)
      in case rx_exec True max_dose_rx line of
           Some maxDoseMatch \<Rightarrow>
             Some ((if falsy_str notes then [] else the_default [] notes @ '' | '')
                   @ m_text maxDoseMatch)
         | None \<Rightarrow> notes)"

text \<open>
  \<open>form_name\<close> is \<^verbatim>\<open>abbreviations.form[form] || form\<close>. The confidence starts at
  \<open>BASE_CONFIDENCE\<close> and is clamped by \<^verbatim>\<open>Math.min(Math.max(confidence, 0.3), 1.0)\<close>.
\<close>

definition form_name :: "Abbreviations \<Rightarrow> string \<Rightarrow> string" where
  "form_name abbreviations f =
     (case abbr_form abbreviations f of
        Some full \<Rightarrow> if full = [] then f else full
      | None \<Rightarrow> f)"

definition BASE_CONFIDENCE :: real where
  "BASE_CONFIDENCE = 0.3"

definition clamp_confidence :: "real \<Rightarrow> real" where
  "clamp_confidence c = min (max c 0.3) 1.0"

definition extractMedicationFromLine ::
    "Abbreviations \<Rightarrow> string \<Rightarrow> Medication option \<times> ExtractionExplanation list" where
  "extractMedicationFromLine abbreviations line =
     (case extract_drug_name line of
        None \<Rightarrow> (None, [])
      | Some (drug_name', form', c1, e1) \<Rightarrow>
          (case extract_strength line of (strength', c2, e2) \<Rightarrow>
           case extract_frequency abbreviations line of (dose_pattern', buckets0, c3, e3) \<Rightarrow>
           case extract_duration line of (duration', c4, e4) \<Rightarrow>
           case extract_food line of (food_instruction', c5, e5) \<Rightarrow>
           case extract_timing line buckets0 of (timing_buckets', e6) \<Rightarrow>
             (Some \<lparr> drug_name = drug_name', strength = strength',
                      form = form_name abbreviations form',
                      dose_pattern = dose_pattern', timing_buckets = timing_buckets',
                      duration = duration', food_instruction = food_instruction',
                      med_notes = extract_notes line,
                      confidence = clamp_confidence (BASE_CONFIDENCE + c1 + c2 + c3 + c4 + c5) \<rparr>,
              e1 @ e2 @ e3 @ e4 @ e5 @ e6)))"

subsection \<open>Extraction from a text\<close>

text \<open>
  \<open>extract_lines\<close> is the loop of \<^verbatim>\<open>extractMedications\<close> over the non-blank lines; the
  records and the explanations come out in the order of the lines.
\<close>

fun extract_lines ::
    "Abbreviations \<Rightarrow> string list \<Rightarrow> Medication list \<times> ExtractionExplanation list" where
  "extract_lines abbreviations [] = ([], [])"
| "extract_lines abbreviations (line # rest) =
     (if isNonMedicationLine line then extract_lines abbreviations rest
      else if \<not> hasMedicationIndicators line then extract_lines abbreviations rest
      else (case extractMedicationFromLine abbreviations line of
              (Some medication, explanations) \<Rightarrow>
                (case extract_lines abbreviations rest of
                   (medications, explanations') \<Rightarrow>
                     (medication # medications, explanations @ explanations'))
            | (None, _) \<Rightarrow> extract_lines abbreviations rest))"

definition extractMedications ::
    "Abbreviations \<Rightarrow> string \<Rightarrow> Medication list \<times> ExtractionExplanation list" where
  "extractMedications abbreviations txt =
     (let lines = filter (\<lambda>line. length (trim line) > 0) (split_char CHR 0x0A txt)
      in extract_lines abbreviations lines)"

text \<open>
  The abbreviation table itself (\<^verbatim>\<open>data/abbreviations.json\<close>) is not among the sources, so
  the extractor takes it as an argument. \<open>example_abbreviations\<close> is a table of the shape
  the code reads, used where the extractor is evaluated on a concrete text.
\<close>

definition example_abbreviations :: Abbreviations where
  "example_abbreviations =
     \<lparr> abbr_frequency = map_of
         [(''OD'', ''Once daily''), (''BD'', ''Twice daily''), (''TDS'', ''Three times daily''),
          (''QDS'', ''Four times daily''), (''QID'', ''Four times daily''),
          (''PRN'', ''As needed''), (''HS'', ''At bedtime''), (''SOS'', ''If needed''),
          (''STAT'', ''Immediately'')],
       abbr_form = map_of
         [(''Tab'', ''Tablet''), (''Cap'', ''Capsule''), (''Syr'', ''Syrup''),
          (''Syp'', ''Syrup''), (''Inj'', ''Injection'')] \<rparr>"

text \<open>
  The specification words the fall-back rule for the drug name as "the first alphabetic
  token of at least 3 characters that is not in the denylist". \<open>spec_first_alphabetic_token\<close>
  is that rule as worded, on the white-space separated tokens of the line; it is compared
  with the extractor below.
\<close>

definition is_alpha :: "char \<Rightarrow> bool" where
  "is_alpha c = (is_lower c \<or> is_upper c)"

definition spec_first_alphabetic_token :: "string \<Rightarrow> string option" where
  "spec_first_alphabetic_token line =
     find (\<lambda>w. 3 \<le> length w \<and> list_all is_alpha w \<and>
               toLowerCase w \<notin> set NON_MEDICATION_KEYWORDS)
          (split_ws (trim line))"

section \<open>Confidence thresholds and clarification rules\<close>

text \<open>
  Source: \<^verbatim>\<open>src/lib/config/confidence-thresholds.ts\<close>.
  A JavaScript \<^verbatim>\<open>number\<close> that carries a confidence is modelled as a \<^typ>\<open>real\<close>:
  the code only compares confidences with constants, adds constants to them and clamps
  them. An optional string (\<^verbatim>\<open>value?: string\<close>) is a \<^typ>\<open>string option\<close>, with
  \<^term>\<open>None\<close> for \<^verbatim>\<open>undefined\<close>.
\<close>

record ConfidenceThresholds =
  ocr_minimum :: real
  ocr_warning :: real
  ocr_good :: real
  thr_drug_name :: real
  thr_strength :: real
  thr_frequency :: real
  thr_duration :: real
  thr_food_instruction :: real
  needs_confirmation_threshold :: real
  missing_field_threshold :: real

definition CONFIDENCE_THRESHOLDS :: ConfidenceThresholds where
  "CONFIDENCE_THRESHOLDS =
     \<lparr> ocr_minimum = 0.50, ocr_warning = 0.65, ocr_good = 0.80,
       thr_drug_name = 0.70, thr_strength = 0.75, thr_frequency = 0.65,
       thr_duration = 0.60, thr_food_instruction = 0.55,
       needs_confirmation_threshold = 0.65, missing_field_threshold = 0.30 \<rparr>"

record ClarificationRules =
  drug_name_uncertain :: bool
  strength_uncertain :: bool
  frequency_missing :: bool
  duration_missing :: bool

definition CLARIFICATION_RULES :: ClarificationRules where
  "CLARIFICATION_RULES =
     \<lparr> drug_name_uncertain = True, strength_uncertain = True,
       frequency_missing = True, duration_missing = False \<rparr>"

definition shouldRequestClarification :: "string \<Rightarrow> real \<Rightarrow> string option \<Rightarrow> bool" where
  "shouldRequestClarification field conf val =
     (let thresholds = CONFIDENCE_THRESHOLDS;
          rules = CLARIFICATION_RULES;
          isMissing = (conf < missing_field_threshold thresholds \<or> falsy_str val)
      in if field = ''drug_name'' then
           drug_name_uncertain rules \<and> (conf < thr_drug_name thresholds \<or> isMissing)
         else if field = ''strength'' then
           strength_uncertain rules \<and> (conf < thr_strength thresholds \<or> isMissing)
         else if field = ''frequency'' then
           frequency_missing rules \<and> isMissing
         else if field = ''duration'' then
           duration_missing rules \<and> isMissing
         else conf < needs_confirmation_threshold thresholds)"

section \<open>Shared schema types\<close>

text \<open>
  Source: \<^verbatim>\<open>lib/types/schemas.ts\<close>. Records of the schema that share a field name with
  another record carry a prefix on that field (\<open>tok_\<close>, \<open>ocr_\<close>, \<open>fe_\<close>, \<open>cq_\<close>, \<open>mi_\<close>,
  ...). The count of a timing bucket is a natural number: the data model of the
  specification has the timing buckets as non-negative integers, and the extractor fills
  them with \<^verbatim>\<open>parseInt\<close> of a digit.

  The interface \<^verbatim>\<open>FieldEvidence\<close> declares \<^verbatim>\<open>ocr_tokens\<close> as a required array. The
  objects that reach the code at run time are not all built by typed code:
  \<^verbatim>\<open>parsePrescriptionWithLLM\<close> takes the evidence objects from the parsed JSON of the
  language model and supplies \<^verbatim>\<open>{..., ocr_tokens: []}\<close> only when the whole evidence
  object is missing, so an evidence object without \<^verbatim>\<open>ocr_tokens\<close> passes through. The
  field is therefore an option here: \<open>None\<close> is an evidence object on which the property
  \<^verbatim>\<open>ocr_tokens\<close> is \<^verbatim>\<open>undefined\<close> (or \<^verbatim>\<open>null\<close>), \<open>Some ts\<close> one that holds the array
  \<open>ts\<close>, as the interface requires.
\<close>

type_synonym bbox = "(real \<times> real) \<times> (real \<times> real) \<times> (real \<times> real) \<times> (real \<times> real)"

record PaddleOCRToken =
  tok_text :: string
  tok_confidence :: real
  tok_bbox :: bbox
  tok_angle :: "real option"

record OCRLine =
  line_text :: string
  line_confidence :: real
  line_tokens :: "PaddleOCRToken list"

record OCRResult =
  ocr_text :: string
  ocr_confidence :: real
  ocr_result_tokens :: "PaddleOCRToken list"
  ocr_lines :: "OCRLine list"
  language_detected :: "string option"
  processing_time_ms :: real

record ClarificationQuestion =
  cq_field :: string
  question :: string
  detected_value :: "string option"
  cq_confidence :: real
  suggestions :: "string list option"

record FieldEvidence =
  fe_value :: string
  fe_confidence :: real
  ocr_tokens :: "PaddleOCRToken list option"
  matched_rule :: "string option"

record MedicationItem =
  mi_name :: string
  name_confidence :: real
  name_evidence :: FieldEvidence
  generic_name :: "string option"
  mi_strength :: string
  strength_confidence :: real
  strength_evidence :: FieldEvidence
  mi_form :: string
  form_confidence :: real
  route :: "string option"
  frequency :: string
  frequency_normalized :: string
  frequency_confidence :: real
  frequency_evidence :: FieldEvidence
  mi_timing_buckets :: TimingBuckets
  mi_duration :: string
  duration_confidence :: real
  duration_evidence :: "FieldEvidence option"
  mi_food_instruction :: "string option"
  food_instruction_confidence :: "real option"
  special_instructions :: "string option"
  mi_notes :: "string option"
  mi_needs_confirmation :: bool
  uncertain_fields :: "string list"

text \<open>
  \<open>example_item\<close> is a well-formed medication item with the given name (a tablet taken
  once daily, in the morning); it is used where a function is evaluated on a concrete plan.
  Its evidence objects hold an empty array of tokens, as the ones that
  \<^verbatim>\<open>parsePrescriptionWithLLM\<close> supplies.
\<close>

definition example_evidence :: "string \<Rightarrow> string \<Rightarrow> FieldEvidence" where
  "example_evidence v rule =
     \<lparr> fe_value = v, fe_confidence = 0.9, ocr_tokens = Some [], matched_rule = Some rule \<rparr>"

definition example_item :: "string \<Rightarrow> MedicationItem" where
  "example_item n =
     \<lparr> mi_name = n, name_confidence = 0.9,
       name_evidence = example_evidence n ''drug_name_extraction'',
       generic_name = None,
       mi_strength = ''500mg'', strength_confidence = 0.9,
       strength_evidence = example_evidence ''500mg'' ''strength_extraction'',
       mi_form = ''Tablet'', form_confidence = 0.9, route = Some ''oral'',
       frequency = ''OD'', frequency_normalized = ''Once daily'', frequency_confidence = 0.9,
       frequency_evidence = example_evidence ''OD'' ''frequency_extraction'',
       mi_timing_buckets = \<lparr> morning = Some 1, afternoon = None, evening = None, night = None \<rparr>,
       mi_duration = ''7 days'', duration_confidence = 0.8, duration_evidence = None,
       mi_food_instruction = None, food_instruction_confidence = None,
       special_instructions = None, mi_notes = None,
       mi_needs_confirmation = False, uncertain_fields = [] \<rparr>"

subsection \<open>Numbers as text\<close>

text \<open>
  \<open>show_nat\<close> is the decimal text of a natural number, as a template literal prints it.
  \<open>toFixed1\<close> is \<^verbatim>\<open>Number.prototype.toFixed(1)\<close> computed on the exact real (below
  \<open>10\<^sup>2\<^sup>1\<close> in absolute value): the nearest tenth, the larger one on a tie. \<open>quoted\<close>
  puts a text between double quotes.
\<close>

definition digit_char :: "nat \<Rightarrow> char" where
  "digit_char d = char_of (48 + d)"

function show_nat :: "nat \<Rightarrow> string" where
  "show_nat n = (if n < 10 then [digit_char n] else show_nat (n div 10) @ [digit_char (n mod 10)])"
  by pat_completeness auto
termination
  by (relation "measure id") auto

declare show_nat.simps [simp del]

definition toFixed1 :: "real \<Rightarrow> string" where
  "toFixed1 x =
     (let n = nat \<lfloor>\<bar>x\<bar> * 10 + 1 / 2\<rfloor>
      in (if x < 0 then ''-'' else []) @ show_nat (n div 10) @ ''.'' @ show_nat (n mod 10))"

definition quoted :: "string \<Rightarrow> string" where
  "quoted s = [CHR 0x22] @ s @ [CHR 0x22]"

section \<open>Confidence gate\<close>

text \<open>
  Source: \<^verbatim>\<open>lib/ocr/confidence-gate.ts\<close>, function \<^verbatim>\<open>evaluateConfidence\<close>. The three
  arrays the function fills are returned together; each field check contributes the
  entries it pushes to \<^verbatim>\<open>lowConfidenceFields\<close> and \<^verbatim>\<open>clarificationQuestions\<close>.
\<close>

record ConfidenceGateResult =
  passed :: bool
  overall_confidence :: real
  needs_confirmation :: bool
  clarification_questions :: "ClarificationQuestion list"
  low_confidence_fields :: "string list"
  warnings :: "string list"

record FieldValue =
  fv_value :: string
  fv_confidence :: real

record ExtractedFields =
  ef_drug_name :: "FieldValue option"
  ef_strength :: "FieldValue option"
  ef_frequency :: "FieldValue option"
  ef_duration :: "FieldValue option"
  ef_food_instruction :: "FieldValue option"

definition check_drug_name :: "FieldValue option \<Rightarrow> (string \<times> ClarificationQuestion) list" where
  "check_drug_name f =
     (case f of
        Some fv \<Rightarrow>
          (let v = fv_value fv; c = fv_confidence fv in
           if shouldRequestClarification ''drug_name'' c (Some v) then
             [(''drug_name'',
               \<lparr> cq_field = ''drug_name'',
                 question =
                   (if v \<noteq> [] then
                      ''The medication name appears to be '' @ quoted v @ ''. Is this correct?''
                    else ''The medication name could not be detected clearly. Please enter the medication name.''),
                 detected_value = Some v, cq_confidence = c,
                 suggestions = (if v \<noteq> [] then Some [v] else None) \<rparr>)]
           else [])
      | None \<Rightarrow>
          [(''drug_name'',
            \<lparr> cq_field = ''drug_name'',
              question = ''The medication name could not be detected. Please enter the medication name.'',
              detected_value = None, cq_confidence = 0, suggestions = None \<rparr>)])"

definition check_strength :: "FieldValue option \<Rightarrow> (string \<times> ClarificationQuestion) list" where
  "check_strength f =
     (case f of
        Some fv \<Rightarrow>
          (let v = fv_value fv; c = fv_confidence fv in
           if shouldRequestClarification ''strength'' c (Some v) then
             [(''strength'',
               \<lparr> cq_field = ''strength'',
                 question =
                   (if v \<noteq> [] then
                      ''The strength appears to be '' @ quoted v @ ''. Is this correct?''
                    else ''The medication strength could not be detected clearly. Please enter the strength (e.g., 500mg).''),
                 detected_value = Some v, cq_confidence = c,
                 suggestions = (if v \<noteq> [] then Some [v] else None) \<rparr>)]
           else [])
      | None \<Rightarrow>
          [(''strength'',
            \<lparr> cq_field = ''strength'',
              question = ''The medication strength could not be detected. Please enter the strength (e.g., 500mg).'',
              detected_value = None, cq_confidence = 0, suggestions = None \<rparr>)])"

definition check_frequency :: "FieldValue option \<Rightarrow> (string \<times> ClarificationQuestion) list" where
  "check_frequency f =
     (case f of
        Some fv \<Rightarrow>
          (let v = fv_value fv; c = fv_confidence fv in
           if shouldRequestClarification ''frequency'' c (Some v) then
             [(''frequency'',
               \<lparr> cq_field = ''frequency'',
                 question =
                   (if v \<noteq> [] then
                      ''The frequency appears to be '' @ quoted v @ ''. Is this correct?''
                    else ''How often should this medication be taken? (e.g., Once daily, Twice daily, 1-0-1)''),
                 detected_value = Some v, cq_confidence = c,
                 suggestions =
                   (if v \<noteq> [] then Some [v, ''Once daily'', ''Twice daily'', ''Three times daily'']
                    else Some [''Once daily'', ''Twice daily'', ''Three times daily'']) \<rparr>)]
           else [])
      | None \<Rightarrow>
          [(''frequency'',
            \<lparr> cq_field = ''frequency'',
              question = ''How often should this medication be taken?'',
              detected_value = None, cq_confidence = 0,
              suggestions =
                Some [''Once daily'', ''Twice daily'', ''Three times daily'', ''As needed''] \<rparr>)])"

definition check_duration :: "FieldValue option \<Rightarrow> (string \<times> ClarificationQuestion) list" where
  "check_duration f =
     (case f of
        Some fv \<Rightarrow>
          (let v = fv_value fv; c = fv_confidence fv in
           if shouldRequestClarification ''duration'' c (Some v) then
             [(''duration'',
               \<lparr> cq_field = ''duration'',
                 question =
                   (if v \<noteq> [] then
                      ''The duration appears to be '' @ quoted v @ ''. Is this correct?''
                    else ''How long should this medication be taken? (e.g., 7 days, 2 weeks)''),
                 detected_value = Some v, cq_confidence = c,
                 suggestions =
                   (if v \<noteq> [] then Some [v, ''7 days'', ''14 days'', ''30 days'']
                    else Some [''7 days'', ''14 days'', ''30 days'', ''As directed'']) \<rparr>)]
           else [])
      | None \<Rightarrow> [])"

definition field_checks :: "ExtractedFields option \<Rightarrow> (string \<times> ClarificationQuestion) list" where
  "field_checks extractedFields =
     (case extractedFields of
        None \<Rightarrow> []
      | Some ef \<Rightarrow>
          check_drug_name (ef_drug_name ef) @ check_strength (ef_strength ef) @
          check_frequency (ef_frequency ef) @ check_duration (ef_duration ef))"

definition evaluateConfidence :: "OCRResult \<Rightarrow> ExtractedFields option \<Rightarrow> ConfidenceGateResult" where
  "evaluateConfidence ocrResult extractedFields =
     (let overallConfidence = ocr_confidence ocrResult in
      if overallConfidence < ocr_minimum CONFIDENCE_THRESHOLDS then
        \<lparr> passed = False,
          overall_confidence = overallConfidence,
          needs_confirmation = True,
          clarification_questions =
            [\<lparr> cq_field = ''image_quality'',
               question = ''The image quality is too low for accurate text extraction. Please upload a clearer image.'',
               detected_value = None, cq_confidence = overallConfidence, suggestions = None \<rparr>],
          low_confidence_fields = [''image_quality''],
          warnings = [''Image quality below minimum threshold''] \<rparr>
      else
        (let warnings0 =
               (if overallConfidence < ocr_warning CONFIDENCE_THRESHOLDS then
                  [''OCR confidence is '' @ toFixed1 (overallConfidence * 100) @ ''%. '' @
                   ''Please review the extracted information carefully.'']
                else []);
             checks = field_checks extractedFields;
             lowConfidenceFields = map fst checks;
             clarificationQuestions = map snd checks;
             needsConfirmation = (length clarificationQuestions > 0);
             passed0 = (overallConfidence \<ge> ocr_minimum CONFIDENCE_THRESHOLDS)
         in \<lparr> passed = passed0,
              overall_confidence = overallConfidence,
              needs_confirmation = needsConfirmation,
              clarification_questions = clarificationQuestions,
              low_confidence_fields = lowConfidenceFields,
              warnings = warnings0 \<rparr>))"

section \<open>Interaction checker\<close>

text \<open>
  Source: \<^verbatim>\<open>lib/interactions/interaction-checker.ts\<close>, functions \<^verbatim>\<open>checkDrugInteractions\<close>
  and \<^verbatim>\<open>findInteraction\<close>. The table \<^verbatim>\<open>contraindications.drug_interactions\<close> comes from
  \<^verbatim>\<open>data/contraindications.json\<close>, which is not among the sources: the functions take the
  table as an argument, a list of entries with the three fields the code reads.

  \<open>name_matches entry n\<close> is the test \<^verbatim>\<open>e === n || e.includes(n)\<close> that the code applies,
  with \<open>e\<close> the lower-case form of a string of the table and \<open>n\<close> the normalised (lower-case,
  trimmed) name of a medication. \<open>truthy_str\<close> is the test \<^verbatim>\<open>if (interactsWith)\<close> on the
  result of \<^verbatim>\<open>find\<close>: an empty string counts as not found. \<open>later_pairs\<close> is the inner
  loop of \<^verbatim>\<open>checkDrugInteractions\<close> and \<open>check_pairs\<close> the outer one.
\<close>

datatype Severity = minor | moderate | severe | unknown

record InteractionResult =
  drug1 :: string
  drug2 :: string
  severity :: Severity
  description :: string
  symptoms :: "string list option"
  mechanism :: "string option"
  recommendation :: string
  ir_source :: string
  ir_source_url :: "string option"

record DrugInteractionEntry =
  drug :: string
  interactions :: "string list"
  warning :: string

definition name_matches :: "string \<Rightarrow> string \<Rightarrow> bool" where
  "name_matches entry normalized =
     (toLowerCase entry = normalized \<or> includes_str (toLowerCase entry) normalized)"

definition truthy_str :: "string option \<Rightarrow> string option" where
  "truthy_str v = (case v of None \<Rightarrow> None | Some s \<Rightarrow> if s = [] then None else Some s)"

definition interaction_result :: "DrugInteractionEntry \<Rightarrow> string \<Rightarrow> InteractionResult" where
  "interaction_result item interactsWith =
     \<lparr> drug1 = drug item, drug2 = interactsWith, severity = moderate,
       description = warning item, symptoms = None, mechanism = None,
       recommendation = ''Please consult your doctor or pharmacist about this potential interaction.'',
       ir_source = ''Local contraindications database'', ir_source_url = None \<rparr>"

fun findInteraction ::
    "DrugInteractionEntry list \<Rightarrow> string \<Rightarrow> string \<Rightarrow> InteractionResult option" where
  "findInteraction [] d1 d2 = None"
| "findInteraction (item # rest) d1 d2 =
     (let normalizedDrug1 = trim (toLowerCase d1);
          normalizedDrug2 = trim (toLowerCase d2)
      in case (if name_matches (drug item) normalizedDrug1
               then truthy_str (find (\<lambda>i. name_matches i normalizedDrug2) (interactions item))
               else None) of
           Some interactsWith \<Rightarrow> Some (interaction_result item interactsWith)
         | None \<Rightarrow>
             (case (if name_matches (drug item) normalizedDrug2
                    then truthy_str (find (\<lambda>i. name_matches i normalizedDrug1) (interactions item))
                    else None) of
                Some interactsWith \<Rightarrow> Some (interaction_result item interactsWith)
              | None \<Rightarrow> findInteraction rest d1 d2))"

fun later_pairs ::
    "DrugInteractionEntry list \<Rightarrow> string \<Rightarrow> string list \<Rightarrow> InteractionResult list" where
  "later_pairs table d1 [] = []"
| "later_pairs table d1 (d2 # rest) =
     (case findInteraction table d1 d2 of
        Some interaction \<Rightarrow> interaction # later_pairs table d1 rest
      | None \<Rightarrow> later_pairs table d1 rest)"

fun check_pairs :: "DrugInteractionEntry list \<Rightarrow> string list \<Rightarrow> InteractionResult list" where
  "check_pairs table [] = []"
| "check_pairs table (d1 # later) = later_pairs table d1 later @ check_pairs table later"

definition checkDrugInteractions ::
    "DrugInteractionEntry list \<Rightarrow> MedicationItem list \<Rightarrow> InteractionResult list" where
  "checkDrugInteractions table medications =
     (let drugNames = map mi_name medications in check_pairs table drugNames)"


text \<open>
  \<open>entry_matches item n1 n2\<close>: the drug string of the entry contains one normalised name
  and one of its interaction strings contains the other.
\<close>

definition entry_matches :: "DrugInteractionEntry \<Rightarrow> string \<Rightarrow> string \<Rightarrow> bool" where
  "entry_matches item n1 n2 =
     ((includes_str (toLowerCase (drug item)) n1 \<and>
       (\<exists>i \<in> set (interactions item). includes_str (toLowerCase i) n2)) \<or>
      (includes_str (toLowerCase (drug item)) n2 \<and>
       (\<exists>i \<in> set (interactions item). includes_str (toLowerCase i) n1)))"





definition example_interactions :: "DrugInteractionEntry list" where
  "example_interactions =
     [\<lparr> drug = ''Warfarin'', interactions = [''Aspirin'', ''Ibuprofen''],
        warning = ''Increased risk of bleeding'' \<rparr>,
      \<lparr> drug = ''Metformin'', interactions = [''Alcohol''],
        warning = ''Risk of lactic acidosis'' \<rparr>]"

section \<open>Nudge generator\<close>

text \<open>
  Source: \<^verbatim>\<open>lib/nudges/nudge-generator.ts\<close>. The time stamp \<^verbatim>\<open>new Date().toISOString()\<close> is
  an argument \<open>now\<close> of the functions. \<open>truthy_num\<close> is the truth value of an optional
  count (\<^verbatim>\<open>if (buckets.morning)\<close>): a bucket that is absent or 0 is not populated.
  \<open>opt_includes\<close> is \<^verbatim>\<open>s?.includes(t)\<close> used as a condition.
\<close>

datatype NudgeCategory =
  implementation_intention | friction_reduction | positive_reinforcement | why_it_matters

datatype NudgeTiming = immediate | before_dose | after_dose | missed_dose | daily_summary

datatype PlanValue = NumValue nat | StrValue string | Undefined

datatype Message = Text string | ObjectConstructor | ObjectPrototype

record NudgeEvidence =
  ev_medication :: string
  plan_field :: string
  plan_value :: PlanValue

record Nudge =
  nudge_id :: string
  category :: NudgeCategory
  behavioral_principle :: string
  message :: Message
  evidence :: NudgeEvidence
  timing :: NudgeTiming
  priority :: int
  created_at :: string
  expires_at :: "string option"

record MealTimes =
  breakfast :: string
  lunch :: string
  dinner :: string

datatype NudgeStyle = gentle | motivational | factual

record UserPreferences =
  wake_time :: string
  sleep_time :: string
  meal_times :: MealTimes
  preferred_nudge_style :: NudgeStyle
  timezone :: string

datatype PatternType = time_of_day | day_of_week | medication_specific

record AdherencePattern =
  pattern_type :: PatternType
  ap_description :: string
  ap_frequency :: real
  suggestion :: string

definition truthy_num :: "nat option \<Rightarrow> bool" where
  "truthy_num v = (case v of None \<Rightarrow> False | Some n \<Rightarrow> n \<noteq> 0)"

definition num_value :: "nat option \<Rightarrow> PlanValue" where
  "num_value v = (case v of None \<Rightarrow> Undefined | Some n \<Rightarrow> NumValue n)"

definition opt_includes :: "string option \<Rightarrow> string \<Rightarrow> bool" where
  "opt_includes v t = (case v of None \<Rightarrow> False | Some s \<Rightarrow> includes_str s t)"

definition generateImplementationIntentionNudges ::
    "MedicationItem \<Rightarrow> UserPreferences \<Rightarrow> string \<Rightarrow> Nudge list" where
  "generateImplementationIntentionNudges medication prefs now =
     (let bs = mi_timing_buckets medication;
          morningNudges =
            (if truthy_num (morning bs) then
               (let habit =
                      (if opt_includes (mi_food_instruction medication) ''before''
                       then ''Before breakfast''
                       else if opt_includes (mi_food_instruction medication) ''after''
                       then ''After breakfast''
                       else ''With breakfast'')
                in [\<lparr> nudge_id = ''impl_intent_morning_'' @ mi_name medication,
                      category = implementation_intention,
                      behavioral_principle = ''EAST: Easy - Implementation Intention'',
                      message = Text (habit @ '', take your '' @ mi_name medication @ '' '' @
                                      mi_strength medication),
                      evidence = \<lparr> ev_medication = mi_name medication,
                                   plan_field = ''timing_buckets.morning'',
                                   plan_value = num_value (morning bs) \<rparr>,
                      timing = before_dose, priority = 9, created_at = now,
                      expires_at = None \<rparr>])
             else []);
          eveningNudges =
            (if truthy_num (evening bs) \<or> truthy_num (night bs) then
               (let tm = (if truthy_num (night bs) then ''bedtime'' else ''dinner'');
                    habit =
                      (if opt_includes (mi_food_instruction medication) ''before''
                       then ''Before '' @ tm
                       else if opt_includes (mi_food_instruction medication) ''after''
                       then ''After '' @ tm
                       else if tm = ''bedtime'' then ''When you brush your teeth at night''
                       else ''With '' @ tm)
                in [\<lparr> nudge_id = ''impl_intent_evening_'' @ mi_name medication,
                      category = implementation_intention,
                      behavioral_principle = ''EAST: Easy - Implementation Intention'',
                      message = Text (habit @ '', take your '' @ mi_name medication @ '' '' @
                                      mi_strength medication),
                      evidence = \<lparr> ev_medication = mi_name medication,
                                   plan_field = (if truthy_num (night bs)
                                                 then ''timing_buckets.night''
                                                 else ''timing_buckets.evening''),
                                   plan_value = num_value (if truthy_num (night bs)
                                                           then night bs else evening bs) \<rparr>,
                      timing = before_dose, priority = 9, created_at = now,
                      expires_at = None \<rparr>])
             else [])
      in morningNudges @ eveningNudges)"

definition generateFrictionReductionNudges :: "MedicationItem \<Rightarrow> string \<Rightarrow> Nudge list" where
  "generateFrictionReductionNudges medication now =
     [\<lparr> nudge_id = ''friction_reduction_'' @ mi_name medication,
        category = friction_reduction,
        behavioral_principle = ''EAST: Easy - Reduce Friction'',
        message = Text (''One-tap to mark '' @ quoted (mi_name medication) @ '' as taken''),
        evidence = \<lparr> ev_medication = mi_name medication, plan_field = ''name'',
                     plan_value = StrValue (mi_name medication) \<rparr>,
        timing = immediate, priority = 7, created_at = now, expires_at = None \<rparr>]"

text \<open>
  The message table is an object literal indexed with the lower-case drug name. A name that
  is no key of the table but is a property every object inherits (the lower-case ones are
  \<^verbatim>\<open>constructor\<close> and \<^verbatim>\<open>__proto__\<close>) yields that inherited value, which is not a text;
  every other missing name yields the default message.
\<close>

definition whyItMattersMessages :: "MedicationItem \<Rightarrow> (string \<times> string) list" where
  "whyItMattersMessages medication =
     [(''amlodipine'', ''Taking Amlodipine as prescribed helps maintain healthy blood pressure''),
      (''losartan'', ''Consistent Losartan helps protect your heart and kidneys''),
      (''metoprolol'', ''Regular Metoprolol helps keep your heart rate steady''),
      (''metformin'', ''Taking Metformin as prescribed helps manage blood sugar levels''),
      (''glimepiride'', ''Consistent Glimepiride helps control blood sugar throughout the day''),
      (''atorvastatin'', ''Regular Atorvastatin helps maintain healthy cholesterol levels''),
      (''rosuvastatin'', ''Taking Rosuvastatin as prescribed supports heart health''),
      (''azithromycin'',
       ''Completing the full course of Azithromycin ensures the infection is fully treated''),
      (''amoxicillin'', ''Finishing all Amoxicillin doses prevents antibiotic resistance''),
      (''paracetamol'', ''Taking Paracetamol as directed provides effective pain and fever relief''),
      (''default'', ''Taking '' @ mi_name medication @ '' as prescribed helps it work effectively'')]"

definition why_message :: "MedicationItem \<Rightarrow> Message" where
  "why_message medication =
     (let drugNameLower = toLowerCase (mi_name medication) in
      case map_of (whyItMattersMessages medication) drugNameLower of
        Some msg \<Rightarrow> Text msg
      | None \<Rightarrow>
          if drugNameLower = ''constructor'' then ObjectConstructor
          else if drugNameLower = ''__proto__'' then ObjectPrototype
          else Text (''Taking '' @ mi_name medication @ '' as prescribed helps it work effectively''))"

definition generateWhyItMattersNudges :: "MedicationItem \<Rightarrow> string \<Rightarrow> Nudge list" where
  "generateWhyItMattersNudges medication now =
     [\<lparr> nudge_id = ''why_matters_'' @ mi_name medication,
        category = why_it_matters,
        behavioral_principle = ''COM-B: Motivation - Reflective'',
        message = why_message medication,
        evidence = \<lparr> ev_medication = mi_name medication, plan_field = ''name'',
                     plan_value = StrValue (mi_name medication) \<rparr>,
        timing = before_dose, priority = 6, created_at = now, expires_at = None \<rparr>] @
     (if mi_duration medication \<noteq> [] \<and> \<not> includes_str (mi_duration medication) ''directed'' then
        [\<lparr> nudge_id = ''duration_reminder_'' @ mi_name medication,
           category = why_it_matters,
           behavioral_principle = ''COM-B: Motivation - Reflective'',
           message = Text (''Complete the full '' @ mi_duration medication @
                           '' course for best results''),
           evidence = \<lparr> ev_medication = mi_name medication, plan_field = ''duration'',
                        plan_value = StrValue (mi_duration medication) \<rparr>,
           timing = daily_summary, priority = 7, created_at = now, expires_at = None \<rparr>]
      else [])"

text \<open>
  The message of the positive reinforcement nudge ends with the emoji U+1F4AA, which lies
  outside the code units of the model; \<open>FLEXED_BICEPS\<close> stands for it.
\<close>

definition FLEXED_BICEPS :: string where
  "FLEXED_BICEPS = ''U+1F4AA''"

definition generatePositiveReinforcementNudges :: "AdherencePattern list \<Rightarrow> string \<Rightarrow> Nudge list" where
  "generatePositiveReinforcementNudges patterns now =
     [\<lparr> nudge_id = ''positive_reinforcement_streak'',
        category = positive_reinforcement,
        behavioral_principle = ''EAST: Attractive - Positive Reinforcement'',
        message = Text (''You'' @ [CHR 0x27] @ ''re building a great medication routine! Keep it up '' @
                        FLEXED_BICEPS),
        evidence = \<lparr> ev_medication = ''all'', plan_field = ''adherence'',
                     plan_value = StrValue ''streak'' \<rparr>,
        timing = daily_summary, priority = 8, created_at = now, expires_at = None \<rparr>]"

text \<open>
  \<open>all_nudges\<close> is the array filled by the loop over the medications and the optional
  positive reinforcement; \<open>generateNudges\<close> sorts it by decreasing priority with the
  stable sort of the language and keeps the first five.
\<close>

definition default_preferences :: UserPreferences where
  "default_preferences =
     \<lparr> wake_time = ''07:00'', sleep_time = ''22:00'',
       meal_times = \<lparr> breakfast = ''08:00'', lunch = ''13:00'', dinner = ''19:00'' \<rparr>,
       preferred_nudge_style = gentle, timezone = ''Asia/Kolkata'' \<rparr>"

definition all_nudges ::
    "MedicationItem list \<Rightarrow> UserPreferences \<Rightarrow> AdherencePattern list option \<Rightarrow> string \<Rightarrow> Nudge list" where
  "all_nudges medications prefs adherencePatterns now =
     concat (map (\<lambda>medication.
        generateImplementationIntentionNudges medication prefs now @
        generateFrictionReductionNudges medication now @
        generateWhyItMattersNudges medication now) medications) @
     (case adherencePatterns of
        Some patterns \<Rightarrow> generatePositiveReinforcementNudges patterns now
      | None \<Rightarrow> [])"

definition generateNudges ::
    "MedicationItem list \<Rightarrow> UserPreferences option \<Rightarrow> AdherencePattern list option \<Rightarrow> string
       \<Rightarrow> Nudge list" where
  "generateNudges medications userPreferences adherencePatterns now =
     (let prefs = (case userPreferences of Some p \<Rightarrow> p | None \<Rightarrow> default_preferences);
          nudges = all_nudges medications prefs adherencePatterns now
      in take 5 (sort_key (\<lambda>n. - priority n) nudges))"


section \<open>Explainability composer\<close>

text \<open>
  Source: \<^verbatim>\<open>lib/explainability/explainability-generator.ts\<close>. The function reads
  \<^verbatim>\<open>x_evidence.ocr_tokens[0]?.bbox\<close> for the name, the strength and the frequency
  (lines 52, 58 and 64). The optional chaining protects the read of \<^verbatim>\<open>bbox\<close> on a missing
  first token, not the index \<^verbatim>\<open>[0]\<close> on a missing array: on an evidence object without
  \<^verbatim>\<open>ocr_tokens\<close> the expression throws a \<^verbatim>\<open>TypeError\<close>, and nothing in the function
  catches it. The model returns a sum: \<open>Inl TypeError\<close> is the exception, \<open>Inr card\<close> the
  card that is returned. The three reads are evaluated in the order of the source, before
  the helpers of the section "why this plan" and the drug details.

  Every other property that the function and its helpers read is a string, a number, a
  boolean or a list that the record type of the model makes present, as
  \<^verbatim>\<open>parsePrescriptionWithLLM\<close> does with its defaults for \<^verbatim>\<open>name\<close>, \<^verbatim>\<open>strength\<close>,
  \<^verbatim>\<open>frequency\<close>, \<^verbatim>\<open>frequency_normalized\<close>, \<^verbatim>\<open>timing_buckets\<close>, \<^verbatim>\<open>duration\<close> and the
  three evidence objects. A value of another JavaScript type in one of these fields is
  outside the model.
\<close>

datatype js_error = TypeError

datatype DrugInfoSource = openfda | local_source | not_found

record DrugInfo =
  di_drug_name :: string
  di_generic_name :: "string option"
  brand_names :: "string list option"
  indications :: "string list"
  mechanism_of_action :: "string option"
  di_common_side_effects :: "string list"
  serious_side_effects :: "string list option"
  di_precautions :: "string list"
  contraindications :: "string list option"
  dosage_forms :: "string list"
  typical_dosage_range :: "string option"
  max_daily_dose :: "string option"
  di_source :: DrugInfoSource
  di_source_url :: "string option"
  last_updated :: string
  cached :: bool

record DetectedField =
  df_value :: string
  df_confidence :: real

record DetectedFoodField =
  dff_value :: "string option"
  dff_confidence :: real

record DetectedFields =
  det_name :: DetectedField
  det_strength :: DetectedField
  det_frequency :: DetectedField
  det_duration :: DetectedField
  det_food_instruction :: DetectedFoodField

record WhatWasDetected =
  detected_fields :: DetectedFields

record EvidenceToken =
  et_field :: string
  et_text :: string
  et_bbox :: bbox
  et_confidence :: real

record PrescriptionEvidence =
  pe_ocr_tokens :: "EvidenceToken list"
  matched_rules :: "string list"
  original_text_snippet :: string

record WhyThisPlan =
  schedule_explanation :: string
  timing_rationale :: string
  duration_reasoning :: string
  food_instruction_reasoning :: "string option"

record DrugDetails =
  what_it_treats :: string
  how_it_works :: "string option"
  common_side_effects :: "string list"
  precautions :: "string list"
  dd_source :: string
  dd_source_url :: "string option"

record Uncertainty =
  has_uncertainty :: bool
  unclear_fields :: "string list"
  confirmation_questions :: "ClarificationQuestion list"

record ExplainabilityCard =
  medication_name :: string
  what_was_detected :: WhatWasDetected
  prescription_evidence :: PrescriptionEvidence
  why_this_plan :: WhyThisPlan
  drug_details :: DrugDetails
  uncertainty :: Uncertainty

fun join_str :: "string \<Rightarrow> string list \<Rightarrow> string" where
  "join_str sep [] = []"
| "join_str sep [x] = x"
| "join_str sep (x # y # ys) = x @ sep @ join_str sep (y # ys)"

definition zero_bbox :: bbox where
  "zero_bbox = ((0, 0), (0, 0), (0, 0), (0, 0))"

text \<open>
  \<open>first_bbox\<close> is \<^verbatim>\<open>ev.ocr_tokens[0]?.bbox || [[0, 0], [0, 0], [0, 0], [0, 0]]\<close>: a
  \<^verbatim>\<open>TypeError\<close> without \<^verbatim>\<open>ocr_tokens\<close>, the box of zeros on an empty array, the box of
  the first token otherwise.
\<close>

definition first_bbox :: "FieldEvidence \<Rightarrow> js_error + bbox" where
  "first_bbox ev =
     (case ocr_tokens ev of
        None \<Rightarrow> Inl TypeError
      | Some [] \<Rightarrow> Inr zero_bbox
      | Some (t # _) \<Rightarrow> Inr (tok_bbox t))"

definition rule_or :: "FieldEvidence \<Rightarrow> string \<Rightarrow> string" where
  "rule_or ev dflt = (case matched_rule ev of None \<Rightarrow> dflt | Some r \<Rightarrow> if r = [] then dflt else r)"

definition generateScheduleExplanation :: "MedicationItem \<Rightarrow> string" where
  "generateScheduleExplanation medication =
     (let bs = mi_timing_buckets medication;
          parts =
            (if truthy_num (morning bs)
             then [show_nat (the_default 0 (morning bs)) @ '' in the morning''] else []) @
            (if truthy_num (afternoon bs)
             then [show_nat (the_default 0 (afternoon bs)) @ '' in the afternoon''] else []) @
            (if truthy_num (evening bs)
             then [show_nat (the_default 0 (evening bs)) @ '' in the evening''] else []) @
            (if truthy_num (night bs)
             then [show_nat (the_default 0 (night bs)) @ '' at night''] else [])
      in if length parts = 0 then ''Take as directed by your doctor.''
         else
           (let schedule = join_str '', '' parts
            in ''Based on '' @ quoted (frequency medication) @ '' in the prescription, take '' @
               schedule @ ''. '' @
               ''This means '' @ toLowerCase (frequency_normalized medication) @ ''.''))"

definition generateTimingRationale :: "MedicationItem \<Rightarrow> string" where
  "generateTimingRationale medication =
     (let fromFood =
            (if falsy_str (mi_food_instruction medication) then None
             else
               (let instruction = toLowerCase (the_default [] (mi_food_instruction medication)) in
                if includes_str instruction ''before'' \<or> includes_str instruction ''ac'' then
                  Some (''The prescription indicates to take this medication before meals. '' @
                        ''This helps with better absorption or reduces stomach upset.'')
                else if includes_str instruction ''after'' \<or> includes_str instruction ''pc'' then
                  Some (''The prescription indicates to take this medication after meals. '' @
                        ''This helps reduce stomach irritation.'')
                else if includes_str instruction ''with'' then
                  Some (''The prescription indicates to take this medication with food. '' @
                        ''This helps with absorption and reduces stomach upset.'')
                else None))
      in case fromFood of
           Some rationale \<Rightarrow> rationale
         | None \<Rightarrow>
             if truthy_num (morning (mi_timing_buckets medication)) \<and>
                \<not> truthy_num (evening (mi_timing_buckets medication)) then
               ''Taking this medication in the morning helps maintain consistent levels throughout the day.''
             else if truthy_num (night (mi_timing_buckets medication)) \<and>
                     \<not> truthy_num (morning (mi_timing_buckets medication)) then
               ''Taking this medication at night may help with better absorption or reduce daytime side effects.''
             else
               ''The timing is based on the prescription instructions to maintain consistent medication levels.'')"

definition generateDurationReasoning :: "MedicationItem \<Rightarrow> string" where
  "generateDurationReasoning medication =
     (if mi_duration medication = ''As directed'' then
        ''The prescription does not specify a duration. Continue taking as directed by your doctor.''
      else
        (case duration_evidence medication of
           Some ev \<Rightarrow>
             ''The prescription specifies '' @ quoted (fe_value ev) @ '' as the duration. '' @
             ''Complete the full course even if you feel better.''
         | None \<Rightarrow>
             ''Take for '' @ mi_duration medication @ ''. Complete the full course as prescribed.''))"

definition generateFoodInstructionReasoning :: "string \<Rightarrow> string" where
  "generateFoodInstructionReasoning instruction =
     (let lower = toLowerCase instruction in
      if includes_str lower ''before'' \<or> includes_str lower ''ac'' then
        ''Taking before meals (usually 30-60 minutes) helps with absorption or prevents stomach upset.''
      else if includes_str lower ''after'' \<or> includes_str lower ''pc'' then
        ''Taking after meals helps reduce stomach irritation from the medication.''
      else if includes_str lower ''with'' then
        ''Taking with food helps with absorption and reduces the chance of stomach upset.''
      else if includes_str lower ''empty'' then
        ''Taking on an empty stomach (1 hour before or 2 hours after food) ensures proper absorption.''
      else ''Follow the instruction: '' @ instruction)"

definition evidence_token :: "string \<Rightarrow> FieldEvidence \<Rightarrow> js_error + EvidenceToken" where
  "evidence_token f ev =
     (case first_bbox ev of
        Inl e \<Rightarrow> Inl e
      | Inr box \<Rightarrow>
          Inr \<lparr> et_field = f, et_text = fe_value ev, et_bbox = box,
                et_confidence = fe_confidence ev \<rparr>)"

definition explainability_card ::
    "MedicationItem \<Rightarrow> DrugInfo option \<Rightarrow> EvidenceToken list \<Rightarrow> ExplainabilityCard" where
  "explainability_card medication drugInfo tokens =
     \<lparr> medication_name = mi_name medication,
       what_was_detected =
         \<lparr> detected_fields =
             \<lparr> det_name = \<lparr> df_value = mi_name medication,
                            df_confidence = name_confidence medication \<rparr>,
               det_strength = \<lparr> df_value = mi_strength medication,
                                df_confidence = strength_confidence medication \<rparr>,
               det_frequency = \<lparr> df_value = frequency_normalized medication,
                                 df_confidence = frequency_confidence medication \<rparr>,
               det_duration = \<lparr> df_value = mi_duration medication,
                                df_confidence = duration_confidence medication \<rparr>,
               det_food_instruction =
                 \<lparr> dff_value = truthy_str (mi_food_instruction medication),
                   dff_confidence = the_default 0 (food_instruction_confidence medication) \<rparr> \<rparr> \<rparr>,
       prescription_evidence =
         \<lparr> pe_ocr_tokens = tokens,
           matched_rules =
             [rule_or (name_evidence medication) ''drug_name_extraction'',
              rule_or (strength_evidence medication) ''strength_extraction'',
              rule_or (frequency_evidence medication) ''frequency_extraction''],
           original_text_snippet =
             mi_name medication @ '' '' @ mi_strength medication @ '' '' @ frequency medication \<rparr>,
       why_this_plan =
         \<lparr> schedule_explanation = generateScheduleExplanation medication,
           timing_rationale = generateTimingRationale medication,
           duration_reasoning = generateDurationReasoning medication,
           food_instruction_reasoning =
             (if falsy_str (mi_food_instruction medication) then None
              else Some (generateFoodInstructionReasoning
                           (the_default [] (mi_food_instruction medication)))) \<rparr>,
       drug_details =
         (case drugInfo of
            Some info \<Rightarrow>
              \<lparr> what_it_treats = join_str '', '' (indications info),
                how_it_works = mechanism_of_action info,
                common_side_effects = di_common_side_effects info,
                precautions = di_precautions info,
                dd_source = (if di_source info = local_source then ''Local Knowledge Base''
                             else ''OpenFDA''),
                dd_source_url = di_source_url info \<rparr>
          | None \<Rightarrow>
              \<lparr> what_it_treats = ''Information not available'',
                how_it_works = None,
                common_side_effects = [],
                precautions = [],
                dd_source = ''Not found'',
                dd_source_url = None \<rparr>),
       uncertainty =
         \<lparr> has_uncertainty = mi_needs_confirmation medication,
           unclear_fields = uncertain_fields medication,
           confirmation_questions = [] \<rparr> \<rparr>"

definition generateExplainabilityCard ::
    "MedicationItem \<Rightarrow> DrugInfo option \<Rightarrow> js_error + ExplainabilityCard" where
  "generateExplainabilityCard medication drugInfo =
     (case evidence_token ''name'' (name_evidence medication) of
        Inl e \<Rightarrow> Inl e
      | Inr name_token \<Rightarrow>
          (case evidence_token ''strength'' (strength_evidence medication) of
             Inl e \<Rightarrow> Inl e
           | Inr strength_token \<Rightarrow>
               (case evidence_token ''frequency'' (frequency_evidence medication) of
                  Inl e \<Rightarrow> Inl e
                | Inr frequency_token \<Rightarrow>
                    Inr (explainability_card medication drugInfo
                           [name_token, strength_token, frequency_token]))))"

section \<open>Properties of the clarification policy\<close>

text \<open>
  Claim C5. For every confidence and every detected value, a clarification about the
  \<^verbatim>\<open>frequency\<close> field is requested exactly when the field is missing, that is when its
  confidence is below 0.30 or its value is absent or empty; in particular a value that is
  present with a confidence in [0.30, 0.65), below the frequency threshold, is not asked
  about. A clarification about the \<^verbatim>\<open>duration\<close> field is never requested.
\<close>

theorem frequency_asked_only_if_missing_duration_never:
  "shouldRequestClarification ''frequency'' c v = (c < 0.30 \<or> v = None \<or> v = Some [])
   \<and> (0.30 \<le> c \<and> c < thr_frequency CONFIDENCE_THRESHOLDS \<and> v = Some s \<and> s \<noteq> []
        \<longrightarrow> \<not> shouldRequestClarification ''frequency'' c v)
   \<and> \<not> shouldRequestClarification ''duration'' c v"
  by (auto simp: shouldRequestClarification_def CONFIDENCE_THRESHOLDS_def
      CLARIFICATION_RULES_def falsy_str_def split: option.splits)

theorem frequency_asked_only_if_missing_duration_never_witness:
  "(0.30::real) \<le> 0.5 \<and> (0.5::real) < thr_frequency CONFIDENCE_THRESHOLDS
   \<and> \<not> shouldRequestClarification ''frequency'' 0.5 (Some ''BD'')
   \<and> shouldRequestClarification ''frequency'' 0.2 (Some ''BD'')
   \<and> shouldRequestClarification ''frequency'' 0.9 (Some [])
   \<and> \<not> shouldRequestClarification ''duration'' 0.1 None"
  using frequency_asked_only_if_missing_duration_never [of "0.5" "Some ''BD''" "''BD''"]
    frequency_asked_only_if_missing_duration_never [of "0.2" "Some ''BD''" "''BD''"]
    frequency_asked_only_if_missing_duration_never [of "0.9" "Some []" "''BD''"]
    frequency_asked_only_if_missing_duration_never [of "0.1" "None" "''BD''"]
  by (simp add: CONFIDENCE_THRESHOLDS_def)

section \<open>Properties of the confidence gate\<close>

text \<open>
  Claim C4. For every OCR result whose overall confidence is below 0.50, and whatever
  extracted fields are supplied, \<open>evaluateConfidence\<close> returns \<open>passed = False\<close> and exactly
  one clarification question, whose field is "image_quality"; the result is the one
  obtained with no extracted fields at all, so no field-level check contributes to it.
\<close>

theorem low_ocr_confidence_rejects_whole_input:
  assumes "ocr_confidence ocrResult < 0.50"
  shows "passed (evaluateConfidence ocrResult extractedFields) = False
       \<and> clarification_questions (evaluateConfidence ocrResult extractedFields) =
           [\<lparr> cq_field = ''image_quality'',
              question = ''The image quality is too low for accurate text extraction. Please upload a clearer image.'',
              detected_value = None, cq_confidence = ocr_confidence ocrResult,
              suggestions = None \<rparr>]
       \<and> map cq_field (clarification_questions (evaluateConfidence ocrResult extractedFields)) =
           [''image_quality'']
       \<and> low_confidence_fields (evaluateConfidence ocrResult extractedFields) = [''image_quality'']
       \<and> evaluateConfidence ocrResult extractedFields = evaluateConfidence ocrResult None"
  using assms by (simp add: evaluateConfidence_def CONFIDENCE_THRESHOLDS_def Let_def)

text \<open>
  An instance: the overall confidence is 0.40 and the extracted fields have no drug name,
  no strength and no frequency. With an overall confidence of 0.50 each of the three raises
  a question of its own; at 0.40 none of them does.
\<close>

theorem low_ocr_confidence_rejects_whole_input_witness:
  "ocr_confidence \<lparr> ocr_text = ''Tab ???'', ocr_confidence = 0.40, ocr_result_tokens = [],
       ocr_lines = [], language_detected = None, processing_time_ms = 120 \<rparr> < 0.50
   \<and> passed (evaluateConfidence
        \<lparr> ocr_text = ''Tab ???'', ocr_confidence = 0.40, ocr_result_tokens = [],
          ocr_lines = [], language_detected = None, processing_time_ms = 120 \<rparr>
        (Some \<lparr> ef_drug_name = None, ef_strength = None, ef_frequency = None,
                ef_duration = None, ef_food_instruction = None \<rparr>)) = False
   \<and> map cq_field (clarification_questions (evaluateConfidence
        \<lparr> ocr_text = ''Tab ???'', ocr_confidence = 0.40, ocr_result_tokens = [],
          ocr_lines = [], language_detected = None, processing_time_ms = 120 \<rparr>
        (Some \<lparr> ef_drug_name = None, ef_strength = None, ef_frequency = None,
                ef_duration = None, ef_food_instruction = None \<rparr>))) = [''image_quality'']
   \<and> map cq_field (clarification_questions (evaluateConfidence
        \<lparr> ocr_text = ''Tab ???'', ocr_confidence = 0.50, ocr_result_tokens = [],
          ocr_lines = [], language_detected = None, processing_time_ms = 120 \<rparr>
        (Some \<lparr> ef_drug_name = None, ef_strength = None, ef_frequency = None,
                ef_duration = None, ef_food_instruction = None \<rparr>)))
      = [''drug_name'', ''strength'', ''frequency'']"
proof -
  let ?ocr = "\<lparr> ocr_text = ''Tab ???'', ocr_confidence = 0.40, ocr_result_tokens = [],
       ocr_lines = [], language_detected = None, processing_time_ms = 120 \<rparr>"
  let ?ef = "Some \<lparr> ef_drug_name = None, ef_strength = None, ef_frequency = None,
                ef_duration = None, ef_food_instruction = None \<rparr>"
  have low: "ocr_confidence ?ocr < 0.50" by simp
  have other: "map cq_field (clarification_questions (evaluateConfidence
        \<lparr> ocr_text = ''Tab ???'', ocr_confidence = 0.50, ocr_result_tokens = [],
          ocr_lines = [], language_detected = None, processing_time_ms = 120 \<rparr> ?ef))
      = [''drug_name'', ''strength'', ''frequency'']"
    by (simp add: evaluateConfidence_def CONFIDENCE_THRESHOLDS_def field_checks_def Let_def
        check_drug_name_def check_strength_def check_frequency_def check_duration_def)
  note gate = low_ocr_confidence_rejects_whole_input [OF low, of ?ef]
  from gate have p: "passed (evaluateConfidence ?ocr ?ef) = False"
    by blast
  from gate have q: "map cq_field (clarification_questions (evaluateConfidence ?ocr ?ef)) =
      [''image_quality'']"
    by blast
  from low p q other show ?thesis
    by blast
qed

section \<open>Properties of the rule-based extractor\<close>

subsection \<open>The pattern for a token made of digits only\<close>

lemma star_dig_unfold:
  "rx_run ic (Star Dig) (pre, c # cs, caps) =
     (if is_digit c then rx_run ic (Star Dig) (c # pre, cs, caps) @ [(pre, c # cs, caps)]
      else [(pre, c # cs, caps)])"
  by (subst rx_run.simps(10)) (simp add: rx_run.simps(2))

lemma star_dig_nil: "rx_run ic (Star Dig) (pre, [], caps) = [(pre, [], caps)]"
  by (subst rx_run.simps(10)) (simp add: rx_run.simps(2))

lemma star_digits_eol:
  "(rx_run ic (Cat (Star Dig) Eol) (pre, suf, caps) \<noteq> []) = list_all is_digit suf"
proof (induction suf arbitrary: pre)
  case Nil
  then show ?case by (simp add: rx_run.simps(8,15) star_dig_nil)
next
  case (Cons c cs)
  show ?case
  proof (cases "is_digit c")
    case True
    have "rx_run ic (Cat (Star Dig) Eol) (pre, c # cs, caps) =
          rx_run ic (Cat (Star Dig) Eol) (c # pre, cs, caps)"
      using True by (simp add: rx_run.simps(8,15) star_dig_unfold)
    then show ?thesis using Cons.IH [of "c # pre"] True by simp
  next
    case False
    then show ?thesis by (simp add: rx_run.simps(8,15) star_dig_unfold)
  qed
qed

lemma search_bol_later:
  "pre \<noteq> [] \<Longrightarrow> rx_search ic (Cat Bol r) pre suf = None"
  by (induction suf arbitrary: pre) (auto simp: rx_run.simps(8,14))

lemma all_digits_test:
  "rx_test False all_digits_rx w = (w \<noteq> [] \<and> list_all is_digit w)"
proof (cases w)
  case Nil
  then show ?thesis
    by (simp add: rx_test_def rx_exec_def all_digits_rx_def plus_def rx_run.simps(2,8,14))
next
  case (Cons c cs)
  let ?r = "Cat Bol (Cat (Cat Dig (Star Dig)) Eol)"
  have run: "rx_run False ?r ([], c # cs, []) =
        (if is_digit c then rx_run False (Cat (Star Dig) Eol) ([c], cs, []) else [])"
    by (simp add: rx_run.simps(2,8,14))
  have "(rx_search False ?r [] (c # cs) \<noteq> None) = (rx_run False ?r ([], c # cs, []) \<noteq> [])"
    by (cases "rx_run False ?r ([], c # cs, [])") (auto simp: search_bol_later)
  then show ?thesis
    using star_digits_eol [of False "[c]" cs "[]"] Cons
    by (simp add: rx_test_def rx_exec_def all_digits_rx_def plus_def run)
qed

lemma is_name_candidate_iff:
  "is_name_candidate w =
     (3 \<le> length w \<and> \<not> list_all is_digit w \<and> toLowerCase w \<notin> set NON_MEDICATION_KEYWORDS)"
  by (auto simp: is_name_candidate_def all_digits_test)

subsection \<open>The example line of the specification\<close>

text \<open>
  Claim C1, as amended. On the single line
  \<^verbatim>\<open>Tab Amlodipine 5mg 1-0-0 x 30 days Before breakfast\<close>, whatever the abbreviation table,
  \<open>extractMedications\<close> yields exactly one record, with drug name "Amlodipine", strength
  "5mg", dose pattern "1-0-0", timing buckets morning 1, afternoon 0 and evening 0 (night
  absent), duration "30 days", no food instruction, and confidence 1, which is strictly
  greater than the base value 0.3.
\<close>

theorem example_line_extraction:
  "fst (extractMedications abbreviations ''Tab Amlodipine 5mg 1-0-0 x 30 days Before breakfast'') =
     [\<lparr> drug_name = ''Amlodipine'', strength = ''5mg'', form = form_name abbreviations ''Tab'',
         dose_pattern = ''1-0-0'',
         timing_buckets =
           \<lparr> morning = Some 1, afternoon = Some 0, evening = Some 0, night = None \<rparr>,
         duration = ''30 days'', food_instruction = None, med_notes = None, confidence = 1 \<rparr>]
   \<and> BASE_CONFIDENCE < 1"
  by code_simp

text \<open>
  The claim as the specification states it asks for a food instruction matching "before"
  and for timing buckets equal to morning 1 alone. The food pattern of the extractor knows
  the phrases ac, pc, with meals, empty stomach, before meals, after meals and with food;
  "Before breakfast" is none of them. The dose pattern 1-0-0 sets the afternoon and evening
  buckets to 0.
\<close>

theorem example_line_counterexample:
  "rx_exec True food_rx ''Tab Amlodipine 5mg 1-0-0 x 30 days Before breakfast'' = None
   \<and> map food_instruction
        (fst (extractMedications example_abbreviations
               ''Tab Amlodipine 5mg 1-0-0 x 30 days Before breakfast'')) = [None]
   \<and> map timing_buckets
        (fst (extractMedications example_abbreviations
               ''Tab Amlodipine 5mg 1-0-0 x 30 days Before breakfast''))
      = [\<lparr> morning = Some 1, afternoon = Some 0, evening = Some 0, night = None \<rparr>]
   \<and> \<lparr> morning = Some 1, afternoon = Some 0, evening = Some 0, night = None \<rparr>
      \<noteq> \<lparr> morning = Some (1::nat), afternoon = None, evening = None, night = None \<rparr>"
  by code_simp

subsection \<open>The fall-back rule for the drug name\<close>

text \<open>
  Claim C6, as amended. On every line on which the pattern "form keyword, white space,
  word" fails, the drug name of the record is the first white-space separated token that
  has at least 3 characters, does not consist of digits only, and whose lower-case form is
  not in the denylist; the token need not be alphabetic. If the line has no such token, no
  record is produced.
\<close>

theorem drug_name_fallback:
  assumes "rx_exec True form_drug_rx line = None"
  shows "(find (\<lambda>w. 3 \<le> length w \<and> \<not> list_all is_digit w \<and>
                      toLowerCase w \<notin> set NON_MEDICATION_KEYWORDS)
               (split_ws (trim line)) = None
            \<longrightarrow> extractMedicationFromLine abbreviations line = (None, []))
       \<and> (\<forall>w. find (\<lambda>w. 3 \<le> length w \<and> \<not> list_all is_digit w \<and>
                          toLowerCase w \<notin> set NON_MEDICATION_KEYWORDS)
                   (split_ws (trim line)) = Some w
            \<longrightarrow> (\<exists>m e. extractMedicationFromLine abbreviations line = (Some m, e) \<and>
                        drug_name m = w))"
proof -
  have eq: "(\<lambda>w. 3 \<le> length w \<and> \<not> list_all is_digit w \<and>
                 toLowerCase w \<notin> set NON_MEDICATION_KEYWORDS) = is_name_candidate"
    by (rule ext) (simp add: is_name_candidate_iff)
  show ?thesis
    unfolding eq using assms
    by (auto simp: extractMedicationFromLine_def extract_drug_name_def
        split: option.splits prod.splits)
qed

theorem drug_name_fallback_witness:
  "rx_exec True form_drug_rx ''Paracetamol 650 mg SOS'' = None
   \<and> find (\<lambda>w. 3 \<le> length w \<and> \<not> list_all is_digit w \<and>
                 toLowerCase w \<notin> set NON_MEDICATION_KEYWORDS)
          (split_ws (trim ''Paracetamol 650 mg SOS'')) = Some ''Paracetamol''
   \<and> (\<exists>m e. extractMedicationFromLine example_abbreviations ''Paracetamol 650 mg SOS''
               = (Some m, e) \<and> drug_name m = ''Paracetamol'')
   \<and> rx_exec True form_drug_rx ''10 20 mg'' = None
   \<and> find (\<lambda>w. 3 \<le> length w \<and> \<not> list_all is_digit w \<and>
                 toLowerCase w \<notin> set NON_MEDICATION_KEYWORDS)
          (split_ws (trim ''10 20 mg'')) = None
   \<and> extractMedicationFromLine example_abbreviations ''10 20 mg'' = (None, [])"
proof -
  have a: "rx_exec True form_drug_rx ''Paracetamol 650 mg SOS'' = None"
    by code_simp
  have b: "find (\<lambda>w. 3 \<le> length w \<and> \<not> list_all is_digit w \<and>
                 toLowerCase w \<notin> set NON_MEDICATION_KEYWORDS)
          (split_ws (trim ''Paracetamol 650 mg SOS'')) = Some ''Paracetamol''"
    by code_simp
  have c: "rx_exec True form_drug_rx ''10 20 mg'' = None"
    by code_simp
  have d: "find (\<lambda>w. 3 \<le> length w \<and> \<not> list_all is_digit w \<and>
                 toLowerCase w \<notin> set NON_MEDICATION_KEYWORDS)
          (split_ws (trim ''10 20 mg'')) = None"
    by code_simp
  show ?thesis
    using drug_name_fallback [OF a, of example_abbreviations]
      drug_name_fallback [OF c, of example_abbreviations] a b c d
    by simp
qed

text \<open>
  The claim as the specification states it fails on two lines that are accepted for
  extraction and on which the form pattern fails. On \<^verbatim>\<open>500mg Paracetamol\<close> the first
  alphabetic token is "Paracetamol", and the extractor names the drug "500mg". On
  \<^verbatim>\<open>500mg 1-0-1\<close> there is no alphabetic token, and the extractor produces a record.
\<close>

theorem drug_name_fallback_counterexample:
  "\<not> isNonMedicationLine ''500mg Paracetamol'' \<and> hasMedicationIndicators ''500mg Paracetamol''
   \<and> rx_exec True form_drug_rx ''500mg Paracetamol'' = None
   \<and> spec_first_alphabetic_token ''500mg Paracetamol'' = Some ''Paracetamol''
   \<and> map drug_name (fst (extractMedications example_abbreviations ''500mg Paracetamol''))
      = [''500mg'']
   \<and> \<not> isNonMedicationLine ''500mg 1-0-1'' \<and> hasMedicationIndicators ''500mg 1-0-1''
   \<and> rx_exec True form_drug_rx ''500mg 1-0-1'' = None
   \<and> spec_first_alphabetic_token ''500mg 1-0-1'' = None
   \<and> map drug_name (fst (extractMedications example_abbreviations ''500mg 1-0-1''))
      = [''500mg'']"
  by code_simp

subsection \<open>The confidence of a record\<close>

lemma clamp_confidence_bounds: "0.3 \<le> clamp_confidence c \<and> clamp_confidence c \<le> 1"
  by (simp add: clamp_confidence_def)

lemma extractMedicationFromLine_confidence:
  assumes "extractMedicationFromLine abbreviations line = (Some m, e)"
  shows "0.3 \<le> confidence m \<and> confidence m \<le> 1"
  using assms clamp_confidence_bounds
  by (auto simp: extractMedicationFromLine_def split: option.splits prod.splits)

lemma extract_lines_confidence:
  "m \<in> set (fst (extract_lines abbreviations ls)) \<Longrightarrow> 0.3 \<le> confidence m \<and> confidence m \<le> 1"
proof (induction ls)
  case Nil
  then show ?case by simp
next
  case (Cons line rest)
  show ?case
  proof (cases "isNonMedicationLine line \<or> \<not> hasMedicationIndicators line")
    case True
    with Cons show ?thesis by (auto split: if_splits)
  next
    case False
    show ?thesis
    proof (cases "extractMedicationFromLine abbreviations line")
      case (Pair mo ex)
      show ?thesis
      proof (cases mo)
        case None
        with Pair False Cons show ?thesis by (auto split: if_splits)
      next
        case (Some m')
        with Pair False Cons.prems
        have "m = m' \<or> m \<in> set (fst (extract_lines abbreviations rest))"
          by (auto split: prod.splits if_splits)
        then show ?thesis
          using Cons.IH extractMedicationFromLine_confidence Pair Some by blast
      qed
    qed
  qed
qed

text \<open>
  Claim C7. For every abbreviation table and every input text, every medication record
  returned by \<open>extractMedications\<close> has a confidence in the closed interval [0, 1].
\<close>

theorem extracted_confidence_in_unit_interval:
  "\<forall>m \<in> set (fst (extractMedications abbreviations txt)).
     0 \<le> confidence m \<and> confidence m \<le> 1"
proof
  fix m assume "m \<in> set (fst (extractMedications abbreviations txt))"
  then have "0.3 \<le> confidence m \<and> confidence m \<le> 1"
    unfolding extractMedications_def Let_def by (rule extract_lines_confidence)
  then show "0 \<le> confidence m \<and> confidence m \<le> 1" by simp
qed

theorem extracted_confidence_in_unit_interval_witness:
  "map drug_name
     (fst (extractMedications example_abbreviations
        ''Name: Ravi Kumar\<newline>Cap Amoxicillin 500mg TDS x 7 days\<newline>Paracetamol 650 mg SOS max 3 times''))
     = [''Amoxicillin'', ''Paracetamol'']
   \<and> list_all (\<lambda>m. 0 \<le> confidence m \<and> confidence m \<le> 1)
     (fst (extractMedications example_abbreviations
        ''Name: Ravi Kumar\<newline>Cap Amoxicillin 500mg TDS x 7 days\<newline>Paracetamol 650 mg SOS max 3 times''))"
proof -
  have "map drug_name
     (fst (extractMedications example_abbreviations
        ''Name: Ravi Kumar\<newline>Cap Amoxicillin 500mg TDS x 7 days\<newline>Paracetamol 650 mg SOS max 3 times''))
     = [''Amoxicillin'', ''Paracetamol'']"
    by code_simp
  then show ?thesis
    using extracted_confidence_in_unit_interval [of example_abbreviations
        "''Name: Ravi Kumar\<newline>Cap Amoxicillin 500mg TDS x 7 days\<newline>Paracetamol 650 mg SOS max 3 times''"]
    by (simp add: list_all_iff)
qed

subsection \<open>The default frequency\<close>

text \<open>
  Claim C10. For every line accepted for extraction on which none of the numeric dose
  pattern, the frequency abbreviations, the "N times daily" phrase and the bare timing
  words matches, the record returned for the line has dose pattern "OD" and timing buckets
  equal to morning 1 alone: a frequency that was not found is reported as once daily.
\<close>

theorem default_frequency_is_once_daily:
  assumes "\<not> isNonMedicationLine line" and "hasMedicationIndicators line"
    and "rx_exec False dose_pattern_rx line = None"
    and "rx_exec True freq_rx line = None"
    and "rx_exec True times_rx line = None"
    and "rx_exec True timing_rx line = None"
    and "extractMedicationFromLine abbreviations line = (Some m, e)"
  shows "dose_pattern m = ''OD'' \<and>
         timing_buckets m = \<lparr> morning = Some 1, afternoon = None, evening = None, night = None \<rparr>"
  using assms(3-7)
  by (auto simp: extractMedicationFromLine_def extract_frequency_def extract_timing_def
      buckets_def split: option.splits prod.splits)

theorem default_frequency_is_once_daily_witness:
  "\<not> isNonMedicationLine ''Tab Paracetamol 500mg''
   \<and> hasMedicationIndicators ''Tab Paracetamol 500mg''
   \<and> rx_exec False dose_pattern_rx ''Tab Paracetamol 500mg'' = None
   \<and> rx_exec True freq_rx ''Tab Paracetamol 500mg'' = None
   \<and> rx_exec True times_rx ''Tab Paracetamol 500mg'' = None
   \<and> rx_exec True timing_rx ''Tab Paracetamol 500mg'' = None
   \<and> fst (extractMedicationFromLine example_abbreviations ''Tab Paracetamol 500mg'') =
       Some \<lparr> drug_name = ''Paracetamol'', strength = ''500mg'', form = ''Tablet'',
              dose_pattern = ''OD'',
              timing_buckets =
                \<lparr> morning = Some 1, afternoon = None, evening = None, night = None \<rparr>,
              duration = ''As directed'', food_instruction = None, med_notes = None,
              confidence = 4 / 5 \<rparr>"
proof -
  let ?m = "\<lparr> drug_name = ''Paracetamol'', strength = ''500mg'', form = ''Tablet'',
              dose_pattern = ''OD'',
              timing_buckets =
                \<lparr> morning = Some 1, afternoon = None, evening = None, night = None \<rparr>,
              duration = ''As directed'', food_instruction = None, med_notes = None,
              confidence = 4 / 5 \<rparr>"
  let ?e = "[\<lparr> matched_span = ''Tab Paracetamol'', rule_name = ''form_drug_extraction'',
               normalized_meaning = ''Medication: Paracetamol (Tab)'',
               expl_confidence = 9 / 10 \<rparr>,
             \<lparr> matched_span = ''500mg'', rule_name = ''strength_extraction'',
               normalized_meaning = ''Strength: 500mg'', expl_confidence = 9 / 10 \<rparr>]"
  have a: "\<not> isNonMedicationLine ''Tab Paracetamol 500mg''"
    by code_simp
  have b: "hasMedicationIndicators ''Tab Paracetamol 500mg''"
    by code_simp
  have c: "rx_exec False dose_pattern_rx ''Tab Paracetamol 500mg'' = None"
    by code_simp
  have d: "rx_exec True freq_rx ''Tab Paracetamol 500mg'' = None"
    by code_simp
  have e: "rx_exec True times_rx ''Tab Paracetamol 500mg'' = None"
    by code_simp
  have f: "rx_exec True timing_rx ''Tab Paracetamol 500mg'' = None"
    by code_simp
  have g: "extractMedicationFromLine example_abbreviations ''Tab Paracetamol 500mg'' = (Some ?m, ?e)"
    by code_simp
  show ?thesis
    using default_frequency_is_once_daily [OF a b c d e f g] a b c d e f g by simp
qed

section \<open>Properties of the interaction checker\<close>

subsection \<open>Substring tests\<close>

text \<open>\<open>includes_str s t\<close> holds exactly when \<open>t\<close> is a contiguous part of \<open>s\<close>.\<close>

lemma startsWith_iff: "startsWith s p = (\<exists>b. s = p @ b)"
  by (induction s p rule: startsWith.induct) auto

lemma includes_str_iff: "includes_str s t = (\<exists>a b. s = a @ t @ b)"
proof (induction s)
  case Nil
  then show ?case by auto
next
  case (Cons c cs)
  show ?case
  proof
    assume "includes_str (c # cs) t"
    then consider "startsWith (c # cs) t" | "includes_str cs t" by auto
    then show "\<exists>a b. c # cs = a @ t @ b"
    proof cases
      case 1
      then obtain b where "c # cs = t @ b" by (auto simp: startsWith_iff)
      then have "c # cs = [] @ t @ b" by simp
      then show ?thesis by blast
    next
      case 2
      then obtain a b where "cs = a @ t @ b" using Cons.IH by blast
      then have "c # cs = (c # a) @ t @ b" by simp
      then show ?thesis by blast
    qed
  next
    assume "\<exists>a b. c # cs = a @ t @ b"
    then obtain a b where ab: "c # cs = a @ t @ b" by blast
    show "includes_str (c # cs) t"
    proof (cases a)
      case Nil
      with ab have "startsWith (c # cs) t" by (auto simp: startsWith_iff)
      then show ?thesis by simp
    next
      case (Cons x a')
      with ab have "cs = a' @ t @ b" by simp
      then have "includes_str cs t" using Cons.IH by blast
      then show ?thesis by simp
    qed
  qed
qed

lemma startsWith_refl: "startsWith s s"
  by (induction s) auto

lemma includes_str_refl: "includes_str s s"
  by (cases s) (auto simp: startsWith_refl)

lemma name_matches_iff: "name_matches entry n = includes_str (toLowerCase entry) n"
  by (auto simp: name_matches_def includes_str_refl)

lemma name_matches_Nil: "n \<noteq> [] \<Longrightarrow> \<not> name_matches [] n"
  by (simp add: name_matches_iff toLowerCase_def)

lemma find_name_matches:
  assumes "n \<noteq> []"
  shows "(truthy_str (find (\<lambda>i. name_matches i n) ints) \<noteq> None) =
         (\<exists>i \<in> set ints. name_matches i n)"
proof (cases "find (\<lambda>i. name_matches i n) ints")
  case None
  then have "\<forall>i \<in> set ints. \<not> name_matches i n"
    by (simp add: find_None_iff)
  with None show ?thesis by (simp add: truthy_str_def)
next
  case (Some i)
  then have m: "name_matches i n" and s: "i \<in> set ints"
    by (auto simp: find_Some_iff)
  from m assms have "i \<noteq> []" using name_matches_Nil by blast
  with Some m s show ?thesis by (auto simp: truthy_str_def)
qed

subsection \<open>When a pair of names matches an entry\<close>

lemma findInteraction_step:
  "(findInteraction (item # rest) d1 d2 \<noteq> None) =
     ((name_matches (drug item) (trim (toLowerCase d1)) \<and>
       truthy_str (find (\<lambda>i. name_matches i (trim (toLowerCase d2))) (interactions item)) \<noteq> None) \<or>
      (name_matches (drug item) (trim (toLowerCase d2)) \<and>
       truthy_str (find (\<lambda>i. name_matches i (trim (toLowerCase d1))) (interactions item)) \<noteq> None) \<or>
      findInteraction rest d1 d2 \<noteq> None)"
  by (simp add: Let_def split: option.splits)

lemma findInteraction_iff:
  assumes "trim (toLowerCase d1) \<noteq> []" and "trim (toLowerCase d2) \<noteq> []"
  shows "(findInteraction table d1 d2 \<noteq> None) =
         (\<exists>item \<in> set table. entry_matches item (trim (toLowerCase d1)) (trim (toLowerCase d2)))"
proof (induction table)
  case Nil
  then show ?case by simp
next
  case (Cons item rest)
  have "(findInteraction (item # rest) d1 d2 \<noteq> None) =
        (entry_matches item (trim (toLowerCase d1)) (trim (toLowerCase d2)) \<or>
         findInteraction rest d1 d2 \<noteq> None)"
    unfolding findInteraction_step find_name_matches [OF assms(1)] find_name_matches [OF assms(2)]
    by (simp add: entry_matches_def name_matches_iff)
  with Cons.IH show ?case by simp
qed

subsection \<open>The results of the checker\<close>










subsection \<open>The results for one pair of names\<close>























text \<open>
  Claim C3, as amended. Matching is case-insensitive containment in one direction: for
  medication names that are not empty after normalisation, \<open>findInteraction\<close> finds a match
  exactly when some entry of the table has a drug string whose lower-case form contains
  the normalised name of one medication, and an interaction string whose lower-case form
  contains the normalised name of the other. That a medication name contains a string of
  the table is not enough.
\<close>

theorem interaction_match_is_containment_in_table_string:
  assumes "trim (toLowerCase d1) \<noteq> []" and "trim (toLowerCase d2) \<noteq> []"
  shows "(findInteraction table d1 d2 \<noteq> None) =
         (\<exists>item \<in> set table.
            (includes_str (toLowerCase (drug item)) (trim (toLowerCase d1)) \<and>
             (\<exists>i \<in> set (interactions item). includes_str (toLowerCase i) (trim (toLowerCase d2)))) \<or>
            (includes_str (toLowerCase (drug item)) (trim (toLowerCase d2)) \<and>
             (\<exists>i \<in> set (interactions item). includes_str (toLowerCase i) (trim (toLowerCase d1)))))"
  using findInteraction_iff [OF assms, of table] by (simp add: entry_matches_def)

theorem interaction_match_is_containment_in_table_string_witness:
  "trim (toLowerCase '' Warf '') \<noteq> [] \<and> trim (toLowerCase ''ASPIRIN'') \<noteq> []
   \<and> includes_str (toLowerCase ''Warfarin'') (trim (toLowerCase '' Warf ''))
   \<and> includes_str (toLowerCase ''Aspirin'') (trim (toLowerCase ''ASPIRIN''))
   \<and> findInteraction example_interactions '' Warf '' ''ASPIRIN'' \<noteq> None"
proof -
  have a: "trim (toLowerCase '' Warf '') \<noteq> []" by code_simp
  have b: "trim (toLowerCase ''ASPIRIN'') \<noteq> []" by code_simp
  have c: "includes_str (toLowerCase ''Warfarin'') (trim (toLowerCase '' Warf ''))" by code_simp
  have d: "includes_str (toLowerCase ''Aspirin'') (trim (toLowerCase ''ASPIRIN''))" by code_simp
  have "\<exists>item \<in> set example_interactions.
            (includes_str (toLowerCase (drug item)) (trim (toLowerCase '' Warf '')) \<and>
             (\<exists>i \<in> set (interactions item). includes_str (toLowerCase i) (trim (toLowerCase ''ASPIRIN'')))) \<or>
            (includes_str (toLowerCase (drug item)) (trim (toLowerCase ''ASPIRIN'')) \<and>
             (\<exists>i \<in> set (interactions item). includes_str (toLowerCase i) (trim (toLowerCase '' Warf ''))))"
    using c d by (simp add: example_interactions_def)
  then have "findInteraction example_interactions '' Warf '' ''ASPIRIN'' \<noteq> None"
    using interaction_match_is_containment_in_table_string [OF a b, of example_interactions]
    by blast
  with a b c d show ?thesis by blast
qed

text \<open>
  The claim as the specification states it has a match also when the medication name
  contains the drug string of the table. The name "Aspirin 75mg" contains the drug string
  "Aspirin", and "Warfarin Sodium" contains the interaction string "Warfarin"; neither is
  matched, while a name that is contained in the string of the table is.
\<close>

theorem interaction_match_counterexample:
  "includes_str (toLowerCase ''Aspirin 75mg'') (toLowerCase ''Aspirin'')
   \<and> findInteraction [\<lparr> drug = ''Aspirin'', interactions = [''Warfarin''],
                         warning = ''Increased risk of bleeding'' \<rparr>]
        ''Aspirin 75mg'' ''Warfarin'' = None
   \<and> includes_str (toLowerCase ''Warfarin Sodium'') (toLowerCase ''Warfarin'')
   \<and> findInteraction [\<lparr> drug = ''Aspirin'', interactions = [''Warfarin''],
                         warning = ''Increased risk of bleeding'' \<rparr>]
        ''Aspirin'' ''Warfarin Sodium'' = None
   \<and> findInteraction [\<lparr> drug = ''Aspirin'', interactions = [''Warfarin''],
                         warning = ''Increased risk of bleeding'' \<rparr>]
        ''spirin'' ''Warf'' \<noteq> None
   \<and> checkDrugInteractions [\<lparr> drug = ''Aspirin'', interactions = [''Warfarin''],
                         warning = ''Increased risk of bleeding'' \<rparr>]
        [example_item ''Aspirin 75mg'', example_item ''Warfarin''] = []"
  by code_simp

section \<open>Properties of the nudge generator\<close>

lemma impl_nudges_props:
  "n \<in> set (generateImplementationIntentionNudges m prefs now) \<Longrightarrow>
     priority n = 9 \<and> category n = implementation_intention"
  by (auto simp: generateImplementationIntentionNudges_def Let_def split: if_splits)

lemma friction_nudges_props:
  "n \<in> set (generateFrictionReductionNudges m now) \<Longrightarrow> priority n = 7"
  by (auto simp: generateFrictionReductionNudges_def)

lemma why_nudges_props:
  "n \<in> set (generateWhyItMattersNudges m now) \<Longrightarrow> priority n = 6 \<or> priority n = 7"
  by (auto simp: generateWhyItMattersNudges_def split: if_splits)

lemma positive_nudges_props:
  "n \<in> set (generatePositiveReinforcementNudges ps now) \<Longrightarrow> priority n = 8"
  by (auto simp: generatePositiveReinforcementNudges_def)

lemma all_nudges_priority:
  assumes "n \<in> set (all_nudges ms prefs ps now)"
  shows "priority n \<le> 9 \<and> (priority n = 9 \<longrightarrow> category n = implementation_intention)"
proof -
  from assms consider
      m where "n \<in> set (generateImplementationIntentionNudges m prefs now)"
    | m where "n \<in> set (generateFrictionReductionNudges m now)"
    | m where "n \<in> set (generateWhyItMattersNudges m now)"
    | qs where "n \<in> set (generatePositiveReinforcementNudges qs now)"
    by (auto simp: all_nudges_def split: option.splits)
  then show ?thesis
  proof cases
    case 1 then show ?thesis using impl_nudges_props by fastforce
  next
    case 2 then show ?thesis using friction_nudges_props by fastforce
  next
    case 3 then show ?thesis using why_nudges_props by fastforce
  next
    case 4 then show ?thesis using positive_nudges_props by fastforce
  qed
qed

lemma impl_nudges_both:
  assumes "truthy_num (morning (mi_timing_buckets m))" and "truthy_num (night (mi_timing_buckets m))"
  shows "length (generateImplementationIntentionNudges m prefs now) = 2"
  using assms by (simp add: generateImplementationIntentionNudges_def Let_def)

lemma count_top_concat:
  assumes "m \<in> set ms"
  shows "length (filter P (f m)) \<le> length (filter P (concat (map f ms)))"
  using assms by (induction ms) auto

lemma all_nudges_two_top:
  assumes "m \<in> set ms"
    and "truthy_num (morning (mi_timing_buckets m))" and "truthy_num (night (mi_timing_buckets m))"
  shows "2 \<le> length (filter (\<lambda>n. priority n = 9) (all_nudges ms prefs ps now))"
proof -
  let ?f = "\<lambda>medication.
        generateImplementationIntentionNudges medication prefs now @
        generateFrictionReductionNudges medication now @
        generateWhyItMattersNudges medication now"
  have "filter (\<lambda>n. priority n = 9) (generateImplementationIntentionNudges m prefs now) =
        generateImplementationIntentionNudges m prefs now"
    using impl_nudges_props by (auto simp: filter_id_conv)
  then have "2 \<le> length (filter (\<lambda>n. priority n = 9) (?f m))"
    using impl_nudges_both [OF assms(2,3), of prefs now] by simp
  also have "\<dots> \<le> length (filter (\<lambda>n. priority n = 9) (concat (map ?f ms)))"
    using assms(1) by (rule count_top_concat)
  also have "\<dots> \<le> length (filter (\<lambda>n. priority n = 9) (all_nudges ms prefs ps now))"
    by (simp add: all_nudges_def)
  finally show ?thesis .
qed

lemma filter_length_mono:
  "\<forall>x \<in> set xs. P x \<longrightarrow> Q x \<Longrightarrow> length (filter P xs) \<le> length (filter Q xs)"
  by (induction xs) auto

lemma sorted_take_count_min:
  fixes g :: "'a \<Rightarrow> int"
  assumes "sorted (map g xs)" and "\<forall>x \<in> set xs. b \<le> g x"
  shows "length (filter (\<lambda>x. g x = b) (take k xs)) = min k (length (filter (\<lambda>x. g x = b) xs))"
  using assms
proof (induction xs arbitrary: k)
  case Nil
  then show ?case by simp
next
  case (Cons x xs)
  show ?case
  proof (cases k)
    case 0
    then show ?thesis by simp
  next
    case (Suc k')
    show ?thesis
    proof (cases "g x = b")
      case True
      with Cons Suc show ?thesis by simp
    next
      case False
      with Cons.prems have "b < g x" by force
      with Cons.prems have "\<forall>y \<in> set xs. g y \<noteq> b" by fastforce
      then have "filter (\<lambda>x. g x = b) xs = []" and "filter (\<lambda>x. g x = b) (take k' xs) = []"
        by (auto simp: filter_empty_conv dest: in_set_takeD)
      with False Suc show ?thesis by simp
    qed
  qed
qed

text \<open>
  Claim C8. If the list of medications contains a medication whose morning and night
  timing buckets are both populated (present and not 0), the list returned by
  \<open>generateNudges\<close> has at least two nudges of category \<open>implementation_intention\<close>; and for
  every list of medications, preferences and adherence data the returned list has at most
  5 nudges.
\<close>

theorem nudges_capped_and_intentions_kept:
  "((\<exists>m \<in> set medications. truthy_num (morning (mi_timing_buckets m)) \<and>
                            truthy_num (night (mi_timing_buckets m)))
     \<longrightarrow> 2 \<le> length (filter (\<lambda>n. category n = implementation_intention)
                (generateNudges medications userPreferences adherencePatterns now)))
   \<and> length (generateNudges medications userPreferences adherencePatterns now) \<le> 5"
proof -
  define prefs where "prefs = (case userPreferences of Some p \<Rightarrow> p | None \<Rightarrow> default_preferences)"
  define nudges where "nudges = all_nudges medications prefs adherencePatterns now"
  define sorted_nudges where "sorted_nudges = sort_key (\<lambda>n. - priority n) nudges"
  have gen: "generateNudges medications userPreferences adherencePatterns now = take 5 sorted_nudges"
    by (simp add: generateNudges_def Let_def prefs_def nudges_def sorted_nudges_def)
  have cap: "length (take 5 sorted_nudges) \<le> 5" by simp
  have two: "2 \<le> length (filter (\<lambda>n. category n = implementation_intention) (take 5 sorted_nudges))"
    if "\<exists>m \<in> set medications. truthy_num (morning (mi_timing_buckets m)) \<and>
                            truthy_num (night (mi_timing_buckets m))"
  proof -
    from that obtain m where m: "m \<in> set medications"
      and mo: "truthy_num (morning (mi_timing_buckets m))"
      and ni: "truthy_num (night (mi_timing_buckets m))" by blast
    have srt: "sorted (map (\<lambda>n. - priority n) sorted_nudges)"
      unfolding sorted_nudges_def by (rule sorted_sort_key)
    have low: "\<forall>n \<in> set sorted_nudges. - 9 \<le> - priority n"
      unfolding sorted_nudges_def nudges_def using all_nudges_priority by fastforce
    have "filter (\<lambda>n. - priority n = - 9) sorted_nudges = filter (\<lambda>n. - priority n = - 9) nudges"
      unfolding sorted_nudges_def by (rule sort_key_stable)
    then have cnt: "length (filter (\<lambda>n. - priority n = - 9) sorted_nudges) =
        length (filter (\<lambda>n. priority n = 9) nudges)"
      by simp
    have "length (filter (\<lambda>n. - priority n = - 9) (take 5 sorted_nudges)) =
        min 5 (length (filter (\<lambda>n. - priority n = - 9) sorted_nudges))"
      using srt low by (rule sorted_take_count_min)
    also have "\<dots> = min 5 (length (filter (\<lambda>n. priority n = 9) nudges))"
      using cnt by simp
    finally have top: "2 \<le> length (filter (\<lambda>n. priority n = 9) (take 5 sorted_nudges))"
      using all_nudges_two_top [OF m mo ni, of prefs adherencePatterns now]
      by (simp add: nudges_def)
    have "\<forall>n \<in> set (take 5 sorted_nudges). priority n = 9 \<longrightarrow> category n = implementation_intention"
      unfolding sorted_nudges_def nudges_def
      using all_nudges_priority by (fastforce dest: in_set_takeD)
    then have "length (filter (\<lambda>n. priority n = 9) (take 5 sorted_nudges)) \<le>
        length (filter (\<lambda>n. category n = implementation_intention) (take 5 sorted_nudges))"
      by (rule filter_length_mono)
    with top show ?thesis by linarith
  qed
  from two cap show ?thesis unfolding gen by blast
qed

theorem nudges_capped_and_intentions_kept_witness:
  "truthy_num (morning (mi_timing_buckets
     ((example_item ''Metformin'')
        \<lparr> mi_timing_buckets :=
            \<lparr> morning = Some 1, afternoon = None, evening = None, night = Some 1 \<rparr> \<rparr>)))
   \<and> truthy_num (night (mi_timing_buckets
     ((example_item ''Metformin'')
        \<lparr> mi_timing_buckets :=
            \<lparr> morning = Some 1, afternoon = None, evening = None, night = Some 1 \<rparr> \<rparr>)))
   \<and> map (\<lambda>n. (nudge_id n, category n, priority n))
        (generateNudges
          [(example_item ''Metformin'')
             \<lparr> mi_timing_buckets :=
                 \<lparr> morning = Some 1, afternoon = None, evening = None, night = Some 1 \<rparr> \<rparr>]
          None (Some []) ''2024-01-01T00:00:00.000Z'')
      = [(''impl_intent_morning_Metformin'', implementation_intention, 9),
         (''impl_intent_evening_Metformin'', implementation_intention, 9),
         (''positive_reinforcement_streak'', positive_reinforcement, 8),
         (''friction_reduction_Metformin'', friction_reduction, 7),
         (''duration_reminder_Metformin'', why_it_matters, 7)]
   \<and> 2 \<le> length (filter (\<lambda>n. category n = implementation_intention)
        (generateNudges
          [(example_item ''Metformin'')
             \<lparr> mi_timing_buckets :=
                 \<lparr> morning = Some 1, afternoon = None, evening = None, night = Some 1 \<rparr> \<rparr>]
          None (Some []) ''2024-01-01T00:00:00.000Z''))
   \<and> length (generateNudges
          [(example_item ''Metformin'')
             \<lparr> mi_timing_buckets :=
                 \<lparr> morning = Some 1, afternoon = None, evening = None, night = Some 1 \<rparr> \<rparr>]
          None (Some []) ''2024-01-01T00:00:00.000Z'') \<le> 5"
proof -
  let ?m = "(example_item ''Metformin'')
        \<lparr> mi_timing_buckets :=
            \<lparr> morning = Some 1, afternoon = None, evening = None, night = Some 1 \<rparr> \<rparr>"
  have a: "truthy_num (morning (mi_timing_buckets ?m))"
    by (simp add: truthy_num_def)
  have b: "truthy_num (night (mi_timing_buckets ?m))"
    by (simp add: truthy_num_def)
  have c: "map (\<lambda>n. (nudge_id n, category n, priority n))
        (generateNudges [?m] None (Some []) ''2024-01-01T00:00:00.000Z'')
      = [(''impl_intent_morning_Metformin'', implementation_intention, 9),
         (''impl_intent_evening_Metformin'', implementation_intention, 9),
         (''positive_reinforcement_streak'', positive_reinforcement, 8),
         (''friction_reduction_Metformin'', friction_reduction, 7),
         (''duration_reminder_Metformin'', why_it_matters, 7)]"
    by code_simp
  have ex: "\<exists>m \<in> set [?m]. truthy_num (morning (mi_timing_buckets m)) \<and>
                           truthy_num (night (mi_timing_buckets m))"
    using a b by simp
  note inst = nudges_capped_and_intentions_kept
    [of "[?m]" None "Some []" "''2024-01-01T00:00:00.000Z''"]
  from inst ex have d: "2 \<le> length (filter (\<lambda>n. category n = implementation_intention)
        (generateNudges [?m] None (Some []) ''2024-01-01T00:00:00.000Z''))"
    by blast
  from inst have e: "length (generateNudges [?m] None (Some []) ''2024-01-01T00:00:00.000Z'') \<le> 5"
    by blast
  from a b c d e show ?thesis by blast
qed

section \<open>Properties of the explainability composer\<close>

lemma first_bbox_cases:
  "(first_bbox ev = Inl TypeError \<and> ocr_tokens ev = None) \<or>
   (\<exists>box. first_bbox ev = Inr box \<and> ocr_tokens ev \<noteq> None)"
proof (cases "ocr_tokens ev")
  case None
  then show ?thesis by (simp add: first_bbox_def)
next
  case (Some ts)
  then show ?thesis by (cases ts) (simp_all add: first_bbox_def del: split_paired_Ex)
qed

lemma evidence_token_cases:
  "(evidence_token f ev = Inl TypeError \<and> ocr_tokens ev = None) \<or>
   (\<exists>tok. evidence_token f ev = Inr tok \<and> ocr_tokens ev \<noteq> None)"
  using first_bbox_cases [of ev] by (auto simp: evidence_token_def simp del: split_paired_Ex)


lemma card_throws_iff:
  "(generateExplainabilityCard medication drugInfo = Inl TypeError) =
     (ocr_tokens (name_evidence medication) = None \<or>
      ocr_tokens (strength_evidence medication) = None \<or>
      ocr_tokens (frequency_evidence medication) = None)"
  using evidence_token_cases [of "''name''" "name_evidence medication"]
    evidence_token_cases [of "''strength''" "strength_evidence medication"]
    evidence_token_cases [of "''frequency''" "frequency_evidence medication"]
  by (auto simp: generateExplainabilityCard_def)





end
